theory Spec2Isabelle
  imports Complex_Main
begin

section \<open>Outlier detection in multiple sequence alignments (09_msa_outlier.py)\<close>

text \<open>
  The script reads aligned sequences, asks Biopython for the pairwise identity
  distances, reduces every sequence to its mean distance to the others, standardises the
  means with \<open>scipy.stats.zscore\<close> and reports the sequences whose z-score exceeds a
  threshold.

  Numbers. The script computes in IEEE doubles through numpy. The model computes with
  exact reals and keeps the special values a double can take: the result of a numpy
  operation is a \<open>npfloat\<close>, which is a finite real, one of the two infinities or NaN.
  What numpy does where exact arithmetic has no value (the mean of nothing, a division by
  zero) is modelled. Rounding is not: two means that are equal in the model can be
  doubles that differ in the last place in the code. The theorems about computed values
  are therefore stated for inputs on which the doubles are exact (all distances zero, or
  dyadic values whose sums, quotients and roots are dyadic too), or with a tolerance where
  rounding cannot change what is flagged.

  Library functions (numpy, scipy, Biopython) are not part of the repository. Each one the
  script calls is modelled below from the library's behaviour, under its own name, and
  the text above each says what was taken from the library.
\<close>

subsection \<open>Exceptions and floating-point values\<close>

text \<open>The exceptions a call of the script's functions can end with.\<close>

datatype error = IndexError | ValueError | OSError

datatype npfloat = NaN | NInf | Fin real | PInf

text \<open>
  \<open>a > b\<close> on doubles: false as soon as one side is NaN, and the infinities lie below
  and above every finite value.
\<close>

fun fgt :: "npfloat \<Rightarrow> npfloat \<Rightarrow> bool" where
  "fgt NaN b = False"
| "fgt a NaN = False"
| "fgt NInf b = False"
| "fgt a NInf = True"
| "fgt a PInf = False"
| "fgt PInf b = True"
| "fgt (Fin x) (Fin y) = (y < x)"

text \<open>\<open>a <= b\<close> on doubles, with the same treatment of NaN.\<close>

fun fle :: "npfloat \<Rightarrow> npfloat \<Rightarrow> bool" where
  "fle NaN b = False"
| "fle a NaN = False"
| "fle NInf b = True"
| "fle a PInf = True"
| "fle a NInf = False"
| "fle PInf b = False"
| "fle (Fin x) (Fin y) = (x \<le> y)"

text \<open>
  Division of two finite doubles in numpy: no exception; a zero divisor gives NaN for
  \<open>0 / 0\<close> and an infinity of the dividend's sign otherwise.
\<close>

definition np_divide :: "real \<Rightarrow> real \<Rightarrow> npfloat" where
  "np_divide x y =
     (if y = 0 then (if x = 0 then NaN else if 0 < x then PInf else NInf)
      else Fin (x / y))"

text \<open>
  \<open>np.mean\<close> of a list of finite values: the sum divided by the count; for the empty
  list the division is \<open>0 / 0\<close> and numpy returns NaN (with a warning, not an
  exception).
\<close>

definition np_mean :: "real list \<Rightarrow> npfloat" where
  "np_mean xs = np_divide (sum_list xs) (real (length xs))"

subsection \<open>Biopython's distance matrix\<close>

text \<open>
  \<open>Bio.Phylo.TreeConstruction.DistanceMatrix\<close>: the names of the sequences and the lower
  triangle of the matrix, row \<open>i\<close> holding the entries of columns \<open>0..i\<close>.
\<close>

record DistanceMatrix =
  names :: "string list"
  matrix :: "real list list"

text \<open>A Python list read at an index: IndexError outside the list.\<close>

definition list_get :: "'a list \<Rightarrow> nat \<Rightarrow> error + 'a" where
  "list_get xs i = (if i < length xs then Inr (xs ! i) else Inl IndexError)"

text \<open>
  \<open>distance_matrix[i, j]\<close> for two integer indices: IndexError when an index is beyond
  the number of names, else the entry of the lower triangle at the larger index's row.
\<close>

definition getitem :: "DistanceMatrix \<Rightarrow> nat \<Rightarrow> nat \<Rightarrow> error + real" where
  "getitem dm i j =
     (if length (names dm) \<le> i \<or> length (names dm) \<le> j then Inl IndexError
      else if j < i then
        (case list_get (matrix dm) i of Inl e \<Rightarrow> Inl e | Inr row \<Rightarrow> list_get row j)
      else
        (case list_get (matrix dm) j of Inl e \<Rightarrow> Inl e | Inr row \<Rightarrow> list_get row i))"

text \<open>
  The shape every \<open>DistanceMatrix\<close> of the library has: as many rows as names, and
  \<open>i + 1\<close> entries in row \<open>i\<close>.
\<close>

definition wf_matrix :: "DistanceMatrix \<Rightarrow> bool" where
  "wf_matrix dm \<longleftrightarrow>
     length (matrix dm) = length (names dm) \<and>
     list_all (\<lambda>i. length (matrix dm ! i) = Suc i) [0..<length (matrix dm)]"

text \<open>
  Two properties of a matrix that every assignment keeps, used in the proofs: all
  entries lie between 0 and 1, and the diagonal is zero.
\<close>

definition unit_entries :: "DistanceMatrix \<Rightarrow> bool" where
  "unit_entries dm \<longleftrightarrow> list_all (list_all (\<lambda>d. 0 \<le> d \<and> d \<le> 1)) (matrix dm)"

definition zero_diagonal :: "DistanceMatrix \<Rightarrow> bool" where
  "zero_diagonal dm \<longleftrightarrow> list_all (\<lambda>i. matrix dm ! i ! i = 0) [0..<length (matrix dm)]"

subsection \<open>Biopython: alignments and DistanceCalculator\<close>

text \<open>
  A \<open>MultipleSeqAlignment\<close> is a list of records, each with an identifier and its
  aligned residues.
\<close>

type_synonym seq_record = "string \<times> string"

type_synonym alignment = "seq_record list"

text \<open>
  What the script takes from Biopython without the model describing it: the reader
  \<open>AlignIO.read(file_path, "fasta")\<close>, the names of the substitution matrices
  \<open>DistanceCalculator\<close> knows besides \<open>identity\<close>, and the pairwise distance under such
  a matrix (which raises ValueError on a letter the matrix does not have).
\<close>

record biopython =
  AlignIO_read :: "string \<Rightarrow> error + alignment"
  matrix_models :: "string list"
  matrix_pairwise :: "string \<Rightarrow> string \<Rightarrow> string \<Rightarrow> error + real"

text \<open>
  \<open>DistanceCalculator(model)\<close>: the calculator holds no scoring matrix for
  \<open>identity\<close>, the named matrix for a model the library knows, and the constructor
  raises ValueError for any other name.
\<close>

definition DistanceCalculator :: "biopython \<Rightarrow> string \<Rightarrow> error + string option" where
  "DistanceCalculator lib model =
     (if model = ''identity'' then Inr None
      else if model \<in> set (matrix_models lib) then Inr (Some model)
      else Inl ValueError)"

text \<open>
  The identity distance of \<open>_pairwise\<close>: the positions of \<open>zip(seq1, seq2)\<close> with equal
  letters are counted (no letter is skipped under \<open>identity\<close>), the maximal score is the
  length of \<open>seq1\<close>, and the distance is \<open>1 - score / max_score\<close>, or 1 when the
  maximal score is 0.
\<close>

definition identity_pairwise :: "string \<Rightarrow> string \<Rightarrow> real" where
  "identity_pairwise seq1 seq2 =
     (let score = length (filter (\<lambda>(l1, l2). l1 = l2) (zip seq1 seq2));
          max_score = length seq1
      in if max_score = 0 then 1 else 1 - real score / real max_score)"

definition pairwise :: "biopython \<Rightarrow> string option \<Rightarrow> string \<Rightarrow> string \<Rightarrow> error + real" where
  "pairwise lib scoring seq1 seq2 =
     (case scoring of
        None \<Rightarrow> Inr (identity_pairwise seq1 seq2)
      | Some m \<Rightarrow> matrix_pairwise lib m seq1 seq2)"

text \<open>
  \<open>DistanceMatrix(names)\<close>: ValueError on a repeated name, else the zero matrix, row
  \<open>i\<close> of length \<open>i + 1\<close>.
\<close>

definition new_matrix :: "string list \<Rightarrow> error + DistanceMatrix" where
  "new_matrix ns =
     (if distinct ns
      then Inr \<lparr>names = ns, matrix = map (\<lambda>i. replicate i 0) [1..<Suc (length ns)]\<rparr>
      else Inl ValueError)"

text \<open>\<open>names.index(name)\<close>, as an option: the first position of the name.\<close>

fun index_of :: "'a list \<Rightarrow> 'a \<Rightarrow> nat option" where
  "index_of [] a = None"
| "index_of (x # xs) a =
     (if x = a then Some 0 else (case index_of xs a of None \<Rightarrow> None | Some i \<Rightarrow> Some (Suc i)))"

text \<open>\<open>_set_zero_diagonal\<close>: the last entry of every row is set to 0.\<close>

definition set_zero_diagonal :: "real list list \<Rightarrow> real list list" where
  "set_zero_diagonal m = map (\<lambda>i. (m ! i)[i := 0]) [0..<length m]"

text \<open>
  \<open>dm[name1, name2] = value\<close>: ValueError when a name is unknown; else the entry of the
  lower triangle at the two positions is replaced, and the diagonal is set to zero again.
  The positions of known names lie inside a matrix of the library's shape, the only kind
  the constructor and this assignment produce.
\<close>

definition setitem :: "DistanceMatrix \<Rightarrow> string \<Rightarrow> string \<Rightarrow> real \<Rightarrow> error + DistanceMatrix" where
  "setitem dm name1 name2 v =
     (case (index_of (names dm) name1, index_of (names dm) name2) of
        (Some r, Some c) \<Rightarrow>
          (let hi = max r c; lo = min r c;
               m = (matrix dm)[hi := (matrix dm ! hi)[lo := v]]
           in Inr (dm\<lparr>matrix := set_zero_diagonal m\<rparr>))
      | _ \<Rightarrow> Inl ValueError)"

text \<open>\<open>itertools.combinations(msa, 2)\<close>: the pairs of records at positions \<open>i < j\<close>.\<close>

fun combinations2 :: "'a list \<Rightarrow> ('a \<times> 'a) list" where
  "combinations2 [] = []"
| "combinations2 (x # xs) = map (Pair x) xs @ combinations2 xs"

text \<open>The loop of \<open>get_distance\<close> over the pairs of records.\<close>

fun fill_distances ::
  "biopython \<Rightarrow> string option \<Rightarrow> DistanceMatrix \<Rightarrow> (seq_record \<times> seq_record) list \<Rightarrow>
     error + DistanceMatrix"
where
  "fill_distances lib scoring dm [] = Inr dm"
| "fill_distances lib scoring dm ((seq1, seq2) # ps) =
     (case pairwise lib scoring (snd seq1) (snd seq2) of
        Inl e \<Rightarrow> Inl e
      | Inr v \<Rightarrow>
          (case setitem dm (fst seq1) (fst seq2) v of
             Inl e \<Rightarrow> Inl e
           | Inr dm' \<Rightarrow> fill_distances lib scoring dm' ps))"

text \<open>\<open>calculator.get_distance(msa)\<close>.\<close>

definition get_distance :: "biopython \<Rightarrow> string option \<Rightarrow> alignment \<Rightarrow> error + DistanceMatrix" where
  "get_distance lib scoring msa =
     (case new_matrix (map fst msa) of
        Inl e \<Rightarrow> Inl e
      | Inr dm \<Rightarrow> fill_distances lib scoring dm (combinations2 msa))"

subsection \<open>load_alignment and calculate_distance_matrix\<close>

text \<open>
  \<open>load_alignment(file_path)\<close>: every exception of the reader is caught, a message is
  printed and None is returned. Messages printed to standard output are not part of the
  model.
\<close>

definition load_alignment :: "biopython \<Rightarrow> string \<Rightarrow> alignment option" where
  "load_alignment lib file_path =
     (case AlignIO_read lib file_path of Inl e \<Rightarrow> None | Inr alignment \<Rightarrow> Some alignment)"

text \<open>
  \<open>calculate_distance_matrix(alignment, model)\<close>: the calculator is built before the
  \<open>try\<close>, so the constructor's exception leaves the function; an exception of
  \<open>get_distance\<close> is caught inside the \<open>try\<close> and turned into None.
\<close>

definition calculate_distance_matrix ::
  "biopython \<Rightarrow> alignment \<Rightarrow> string \<Rightarrow> error + DistanceMatrix option"
where
  "calculate_distance_matrix lib alignment model =
     (case DistanceCalculator lib model of
        Inl e \<Rightarrow> Inl e
      | Inr calculator \<Rightarrow>
          (case get_distance lib calculator alignment of
             Inl e \<Rightarrow> Inr None
           | Inr distance_matrix \<Rightarrow> Inr (Some distance_matrix)))"

subsection \<open>scipy.stats.zscore\<close>

text \<open>The finite values of a list of doubles, when all of them are finite.\<close>

fun finite_values :: "npfloat list \<Rightarrow> real list option" where
  "finite_values [] = Some []"
| "finite_values (Fin x # as) =
     (case finite_values as of None \<Rightarrow> None | Some xs \<Rightarrow> Some (x # xs))"
| "finite_values (a # as) = None"

text \<open>
  \<open>a.std(ddof=0)\<close>: the population standard deviation, the root of the mean squared
  deviation from the mean (divisor: the number of values).
\<close>

definition mean :: "real list \<Rightarrow> real" where
  "mean xs = sum_list xs / real (length xs)"

definition np_std :: "real list \<Rightarrow> real" where
  "np_std xs = sqrt (mean (map (\<lambda>x. (x - mean xs)\<^sup>2) xs))"

text \<open>
  \<open>scipy.stats.zscore(a)\<close> with its defaults (\<open>ddof=0\<close>, \<open>nan_policy='propagate'\<close>):
  every value minus the mean, divided by the population standard deviation. An empty
  input gives an empty output. A NaN or an infinity in the input makes the mean or the
  deviation NaN, hence every score NaN. A constant input has deviation zero: scipy
  detects it and returns NaN for every score; versions without the test divide
  \<open>0 / 0\<close> and return NaN as well. The test differs between versions of scipy (all
  values equal to one of them; deviation at most the machine epsilon times the mean); in
  exact arithmetic each version holds exactly when all values are equal, which is the
  test of the model.
\<close>

definition zscore :: "npfloat list \<Rightarrow> npfloat list" where
  "zscore a =
     (case finite_values a of
        None \<Rightarrow> map (\<lambda>_. NaN) a
      | Some xs \<Rightarrow>
          if list_all (\<lambda>x. x = hd xs) xs then map (\<lambda>_. NaN) xs
          else map (\<lambda>x. np_divide (x - mean xs) (np_std xs)) xs)"

subsection \<open>analyze_distances\<close>

text \<open>
  \<open>[distance_matrix[i, j] for j in range(n_sequences) if i != j]\<close>, over the list of
  the \<open>j\<close>: the first failing read ends the comprehension with its exception.
\<close>

fun seq_distances :: "DistanceMatrix \<Rightarrow> nat \<Rightarrow> nat list \<Rightarrow> error + real list" where
  "seq_distances dm i [] = Inr []"
| "seq_distances dm i (j # js) =
     (if i \<noteq> j then
        (case getitem dm i j of
           Inl e \<Rightarrow> Inl e
         | Inr d \<Rightarrow>
             (case seq_distances dm i js of Inl e \<Rightarrow> Inl e | Inr ds \<Rightarrow> Inr (d # ds)))
      else seq_distances dm i js)"

text \<open>The first loop: the mean distance of every sequence \<open>i\<close> of the list to all others.\<close>

fun avg_loop :: "DistanceMatrix \<Rightarrow> nat \<Rightarrow> nat list \<Rightarrow> error + npfloat list" where
  "avg_loop dm n [] = Inr []"
| "avg_loop dm n (i # is) =
     (case seq_distances dm i [0..<n] of
        Inl e \<Rightarrow> Inl e
      | Inr ds \<Rightarrow>
          (case avg_loop dm n is of
             Inl e \<Rightarrow> Inl e
           | Inr avgs \<Rightarrow> Inr (np_mean ds # avgs)))"

text \<open>
  The second loop, over \<open>enumerate(zip(avg_distances, z_scores))\<close> from index \<open>i\<close> on:
  a sequence is appended when its z-score is greater than the threshold. The index stays
  below the number of identifiers, which is the length of both zipped lists.
\<close>

fun flag_outliers ::
  "string list \<Rightarrow> npfloat \<Rightarrow> nat \<Rightarrow> (npfloat \<times> npfloat) list \<Rightarrow> (string \<times> npfloat \<times> npfloat) list"
where
  "flag_outliers ids t i [] = []"
| "flag_outliers ids t i ((avg_dist, z_score) # rest) =
     (if fgt z_score t then (ids ! i, avg_dist, z_score) # flag_outliers ids t (Suc i) rest
      else flag_outliers ids t (Suc i) rest)"

text \<open>
  \<open>analyze_distances(distance_matrix, sequence_ids, z_threshold)\<close>: the outliers, the mean
  distances and the z-scores, or the exception of a failed read of the matrix.
\<close>

definition analyze_distances ::
  "DistanceMatrix \<Rightarrow> string list \<Rightarrow> npfloat \<Rightarrow>
     error + ((string \<times> npfloat \<times> npfloat) list \<times> npfloat list \<times> npfloat list)"
where
  "analyze_distances distance_matrix sequence_ids z_threshold =
     (let n_sequences = length sequence_ids in
      case avg_loop distance_matrix n_sequences [0..<n_sequences] of
        Inl e \<Rightarrow> Inl e
      | Inr avg_distances \<Rightarrow>
          (let z_scores = zscore avg_distances in
           Inr (flag_outliers sequence_ids z_threshold 0 (zip avg_distances z_scores),
                avg_distances, z_scores)))"

subsection \<open>process_alignment_file\<close>

text \<open>\<open>os.path.basename\<close>: what follows the last slash of the path.\<close>

definition basename :: "string \<Rightarrow> string" where
  "basename p = rev (takeWhile (\<lambda>c. c \<noteq> CHR ''/'') (rev p))"

text \<open>\<open>s.split('.')[0]\<close>: what precedes the first dot.\<close>

definition before_dot :: "string \<Rightarrow> string" where
  "before_dot s = takeWhile (\<lambda>c. c \<noteq> CHR ''.'') s"

text \<open>
  \<open>os.path.join(a, b)\<close> on a POSIX system: an absolute \<open>b\<close> replaces \<open>a\<close>; else the two
  are joined with one slash, which is left out when \<open>a\<close> is empty or ends with one.
\<close>

definition path_join :: "string \<Rightarrow> string \<Rightarrow> string" where
  "path_join a b =
     (if b \<noteq> [] \<and> hd b = CHR ''/'' then b
      else if a = [] \<or> last a = CHR ''/'' then a @ b
      else a @ ''/'' @ b)"

text \<open>
  \<open>alignment.get_alignment_length()\<close>: the length of the first record's residues, 0 for
  an alignment without records.
\<close>

definition get_alignment_length :: "alignment \<Rightarrow> nat" where
  "get_alignment_length a = (case a of [] \<Rightarrow> 0 | r # _ \<Rightarrow> length (snd r))"

text \<open>A double that is neither NaN nor an infinity.\<close>

fun is_finite :: "npfloat \<Rightarrow> bool" where
  "is_finite (Fin x) = True"
| "is_finite a = False"

text \<open>
  \<open>plot_distance_distribution\<close> draws and saves a figure and returns its path. The
  figure is not modelled. What is: the histogram of the z-scores
  (\<open>ax2.hist(z_scores, bins=10)\<close>) raises ValueError when a z-score is NaN or infinite,
  because the range of the bins is then not finite; otherwise the path is returned.
\<close>

definition plot_distance_distribution ::
  "npfloat list \<Rightarrow> npfloat list \<Rightarrow> string list \<Rightarrow> (string \<times> npfloat \<times> npfloat) list \<Rightarrow>
     string \<Rightarrow> string \<Rightarrow> bool \<Rightarrow> error + string"
where
  "plot_distance_distribution avg_distances z_scores sequence_ids outs alignment_name
       output_dir show_plot =
     (if list_all is_finite z_scores
      then Inr (path_join output_dir (alignment_name @ ''_distance_plot.png''))
      else Inl ValueError)"

text \<open>The dictionary \<open>results\<close> that \<open>process_alignment_file\<close> returns.\<close>

record result =
  alignment_name :: string
  file_path :: string
  num_sequences :: nat
  alignment_length :: nat
  outliers :: "(string \<times> npfloat \<times> npfloat) list"
  plot_path :: "string option"

text \<open>
  \<open>process_alignment_file(file_path, output_dir, z_threshold, generate_plot, show_plot)\<close>:
  None when the alignment could not be loaded or the matrix could not be computed, else
  the result of the analysis, with the path of the plot when one is asked for. An
  exception of \<open>calculate_distance_matrix\<close>, of \<open>analyze_distances\<close> or of
  \<open>plot_distance_distribution\<close> is not caught here.
\<close>

definition process_alignment_file ::
  "biopython \<Rightarrow> string \<Rightarrow> string \<Rightarrow> npfloat \<Rightarrow> bool \<Rightarrow> bool \<Rightarrow> error + result option"
where
  "process_alignment_file lib path output_dir z_threshold generate_plot show_plot =
     (case load_alignment lib path of
        None \<Rightarrow> Inr None
      | Some alignment \<Rightarrow>
          (let name = before_dot (basename path);
               sequence_ids = map fst alignment
           in case calculate_distance_matrix lib alignment ''identity'' of
                Inl e \<Rightarrow> Inl e
              | Inr None \<Rightarrow> Inr None
              | Inr (Some distance_matrix) \<Rightarrow>
                  (case analyze_distances distance_matrix sequence_ids z_threshold of
                     Inl e \<Rightarrow> Inl e
                   | Inr (outs, avg_distances, z_scores) \<Rightarrow>
                       (let results =
                              \<lparr>alignment_name = name,
                               file_path = path,
                               num_sequences = length alignment,
                               alignment_length = get_alignment_length alignment,
                               outliers = outs,
                               plot_path = None\<rparr>
                        in if generate_plot then
                             (case plot_distance_distribution avg_distances z_scores
                                     sequence_ids outs name output_dir show_plot of
                                Inl e \<Rightarrow> Inl e
                              | Inr p \<Rightarrow> Inr (Some (results\<lparr>plot_path := Some p\<rparr>)))
                           else Inr (Some results)))))"

subsection \<open>write_report\<close>

text \<open>The decimal digits of a natural number, as \<open>str\<close> of a Python int gives them.\<close>

fun dec :: "nat \<Rightarrow> string" where
  "dec n =
     (if n < 10 then [char_of (48 + n)]
      else dec (n div 10) @ [char_of (48 + n mod 10)])"

text \<open>
  One line of the list of outliers. The rendering of a double with four decimals
  (\<open>:.4f\<close>) is a parameter of the model.
\<close>

definition outlier_line :: "(npfloat \<Rightarrow> string) \<Rightarrow> string \<times> npfloat \<times> npfloat \<Rightarrow> string" where
  "outlier_line fmt4 out =
     (case out of (seq_id, avg_dist, z_score) \<Rightarrow>
        ''  - '' @ seq_id @ '': Avg Distance = '' @ fmt4 avg_dist @ '', Z-score = '' @
        fmt4 z_score @ ''\<newline>'')"

text \<open>
  The body of the loop of \<open>write_report\<close> for a result that is not None: the strings
  written to the file, in order, and the new value of \<open>found_outliers\<close>. A list or a
  string is true in Python when it is not empty.
\<close>

definition report_result :: "(npfloat \<Rightarrow> string) \<Rightarrow> result \<Rightarrow> bool \<Rightarrow> string list \<times> bool" where
  "report_result fmt4 r found_outliers =
     ([''Alignment: '' @ alignment_name r @ ''\<newline>'',
       ''File: '' @ file_path r @ ''\<newline>'',
       ''Sequences: '' @ dec (num_sequences r) @ ''\<newline>'',
       ''Alignment Length: '' @ dec (alignment_length r) @ ''\<newline>''] @
      (if outliers r \<noteq> [] then
         [''\<newline>Potential outlier sequences:\<newline>''] @
         map (outlier_line fmt4) (outliers r) @
         (case plot_path r of
            None \<Rightarrow> []
          | Some p \<Rightarrow>
              if p \<noteq> [] then [''\<newline>Distance plot saved to: '' @ p @ ''\<newline>''] else [])
       else [''\<newline>No outlier sequences detected.\<newline>'']) @
      [''\<newline>'' @ replicate 50 (CHR ''-'') @ ''\<newline>\<newline>''],
      (if outliers r \<noteq> [] then True else found_outliers))"

text \<open>The loop over the results: a result that is None is skipped.\<close>

fun report_loop ::
  "(npfloat \<Rightarrow> string) \<Rightarrow> result option list \<Rightarrow> bool \<Rightarrow> string list \<times> bool"
where
  "report_loop fmt4 [] found_outliers = ([], found_outliers)"
| "report_loop fmt4 (None # rest) found_outliers = report_loop fmt4 rest found_outliers"
| "report_loop fmt4 (Some r # rest) found_outliers =
     (case report_result fmt4 r found_outliers of
        (ws, found) \<Rightarrow>
          (case report_loop fmt4 rest found of (ws', found') \<Rightarrow> (ws @ ws', found')))"

text \<open>
  \<open>write_report(results, output_dir)\<close>: the path of the report, which is returned, and
  the strings written to it, in order.
\<close>

definition write_report ::
  "(npfloat \<Rightarrow> string) \<Rightarrow> result option list \<Rightarrow> string \<Rightarrow> string \<times> string list"
where
  "write_report fmt4 results output_dir =
     (case report_loop fmt4 results False of
        (ws, found_outliers) \<Rightarrow>
          (path_join output_dir ''outlier_report.txt'',
           [''OUTLIER SEQUENCE ANALYSIS REPORT\<newline>'',
            ''===============================\<newline>\<newline>''] @
           ws @
           (if \<not> found_outliers
            then [''No outlier sequences were detected in any alignments.\<newline>'']
            else [])))"

subsection \<open>Example inputs\<close>

text \<open>
  The alignment of the specification's concrete scenario and the matrix Biopython builds
  for it; and an alignment of two pairs of sequences, whose z-scores are 1, 1, -1, -1.
\<close>

definition scenario :: alignment where
  "scenario = [(''A'', ''AAAA''), (''B'', ''AAAA''), (''C'', ''AAAA''), (''D'', ''TTTT'')]"

definition scenario_matrix :: DistanceMatrix where
  "scenario_matrix =
     \<lparr>names = [''A'', ''B'', ''C'', ''D''],
      matrix = [[0], [0, 0], [0, 0, 0], [1, 1, 1, 0]]\<rparr>"

definition two_pairs :: alignment where
  "two_pairs = [(''s1'', ''AA''), (''s2'', ''TT''), (''s3'', ''AT''), (''s4'', ''AT'')]"

definition two_pairs_matrix :: DistanceMatrix where
  "two_pairs_matrix =
     \<lparr>names = [''s1'', ''s2'', ''s3'', ''s4''],
      matrix = [[0], [1, 0], [1/2, 1/2, 0], [1/2, 1/2, 0, 0]]\<rparr>"

text \<open>
  An alignment of two pairs whose distances, means and z-scores are dyadic, so that the
  doubles of the code are exact: the means are 1/2, 1/2, 1/4, 1/4 and the z-scores 1, 1,
  -1, -1.
\<close>

definition exact_pairs :: alignment where
  "exact_pairs =
     [(''s1'', ''TTTAAAAA''), (''s2'', ''AAATTTAA''), (''s3'', ''AAAAAAAA''), (''s4'', ''AAAAAAAA'')]"

definition exact_pairs_matrix :: DistanceMatrix where
  "exact_pairs_matrix =
     \<lparr>names = [''s1'', ''s2'', ''s3'', ''s4''],
      matrix = [[0], [3/4, 0], [3/8, 3/8, 0], [3/8, 3/8, 0, 0]]\<rparr>"

text \<open>A library that reads no file and knows no model besides \<open>identity\<close>.\<close>

definition identity_only :: biopython where
  "identity_only =
     \<lparr>AlignIO_read = (\<lambda>_. Inl OSError), matrix_models = [],
      matrix_pairwise = (\<lambda>_ _ _. Inl ValueError)\<rparr>"

text \<open>A library whose reader returns two records with the same identifier.\<close>

definition repeated_id_file :: biopython where
  "repeated_id_file =
     \<lparr>AlignIO_read = (\<lambda>_. Inr [(''A'', ''AC''), (''A'', ''AC'')]), matrix_models = [],
      matrix_pairwise = (\<lambda>_ _ _. Inl ValueError)\<rparr>"

text \<open>The result of an alignment without outliers.\<close>

definition clean_result :: result where
  "clean_result =
     \<lparr>alignment_name = ''gene1'', file_path = ''gene1.fasta'', num_sequences = 4,
      alignment_length = 4, outliers = [], plot_path = None\<rparr>"


section \<open>Properties\<close>

subsection \<open>The two loops of analyze_distances\<close>

lemma avg_loop_length: "avg_loop dm n is = Inr avgs \<Longrightarrow> length avgs = length is"
  by (induction "is" arbitrary: avgs) (auto split: sum.splits)

lemma zscore_length: "length (zscore a) = length a"
proof -
  have "finite_values a = Some xs \<Longrightarrow> length xs = length a" for xs
    by (induction a arbitrary: xs rule: finite_values.induct) (auto split: option.splits)
  then show ?thesis by (auto simp: zscore_def split: option.splits)
qed

lemma flag_outliers_filter:
  "flag_outliers ids t i azs =
     map (\<lambda>(k, a, z). (ids ! k, a, z))
       (filter (\<lambda>(k, a, z). fgt z t) (zip [i..<i + length azs] azs))"
proof (induction azs arbitrary: i)
  case Nil
  then show ?case by simp
next
  case (Cons p azs)
  obtain a z where p: "p = (a, z)" by (cases p)
  have "[i..<i + length (p # azs)] = i # [Suc i..<Suc i + length azs]"
    using upt_conv_Cons [of i "i + length (p # azs)"] by simp
  then show ?case using Cons.IH [of "Suc i"] by (simp add: p)
qed

lemma fgt_irrefl: "\<not> fgt z z"
  by (cases z) simp_all

lemma fgt_antitone: "fle t1 t2 \<Longrightarrow> fgt z t2 \<Longrightarrow> fgt z t1"
  by (cases z; cases t1; cases t2) simp_all

lemma flag_outliers_antitone:
  "fle t1 t2 \<Longrightarrow> set (flag_outliers ids t2 i azs) \<subseteq> set (flag_outliers ids t1 i azs)"
proof (induction azs arbitrary: i)
  case Nil
  then show ?case by simp
next
  case (Cons p azs)
  obtain a z where p: "p = (a, z)" by (cases p)
  have "fgt z t2 \<Longrightarrow> fgt z t1" using Cons.prems by (rule fgt_antitone)
  then show ?case using Cons.IH [OF Cons.prems, of "Suc i"] by (auto simp: p)
qed

lemma analyze_distances_Inr:
  "analyze_distances dm ids t = Inr (outs, avgs, zs) \<longleftrightarrow>
     avg_loop dm (length ids) [0..<length ids] = Inr avgs \<and> zs = zscore avgs \<and>
     outs = flag_outliers ids t 0 (zip avgs zs)"
  by (auto simp: analyze_distances_def Let_def split: sum.splits)

lemma outliers_by_index:
  assumes "length avgs = n" "length zs = n"
  shows "flag_outliers ids t 0 (zip avgs zs) =
           map (\<lambda>i. (ids ! i, avgs ! i, zs ! i)) (filter (\<lambda>i. fgt (zs ! i) t) [0..<n])"
proof -
  have z: "zip [0..<n] (zip avgs zs) = map (\<lambda>i. (i, avgs ! i, zs ! i)) [0..<n]"
    using assms by (intro nth_equalityI) auto
  show ?thesis
    unfolding flag_outliers_filter using assms
    by (simp add: z filter_map comp_def)
qed

subsection \<open>Reads of the matrix\<close>

lemma getitem_sym: "getitem dm i j = getitem dm j i"
  by (cases i j rule: linorder_cases) (auto simp: getitem_def)

lemma wf_matrix_iff:
  "wf_matrix dm \<longleftrightarrow>
     length (matrix dm) = length (names dm) \<and>
     (\<forall>i<length (names dm). length (matrix dm ! i) = Suc i)"
  by (auto simp: wf_matrix_def list_all_iff)

lemma getitem_value:
  assumes "wf_matrix dm" "i < length (names dm)" "j < length (names dm)"
  shows "getitem dm i j = Inr (matrix dm ! max i j ! min i j)"
  using assms by (auto simp: wf_matrix_iff getitem_def list_get_def max_def min_def)

lemma getitem_error: "getitem dm i j = Inl e \<Longrightarrow> e = IndexError"
  by (auto simp: getitem_def list_get_def split: if_splits sum.splits)

lemma seq_distances_error: "seq_distances dm i js = Inl e \<Longrightarrow> e = IndexError"
  by (induction js arbitrary: e) (auto split: if_splits sum.splits dest: getitem_error)

lemma avg_loop_error: "avg_loop dm n is = Inl e \<Longrightarrow> e = IndexError"
  by (induction "is" arbitrary: e) (auto split: sum.splits dest: seq_distances_error)

lemma seq_distances_reads:
  "seq_distances dm i js = Inr ds \<Longrightarrow> j \<in> set js \<Longrightarrow> j \<noteq> i \<Longrightarrow> \<exists>d. getitem dm i j = Inr d"
  by (induction js arbitrary: ds) (auto split: if_splits sum.splits)

lemma seq_distances_total:
  "(\<And>j. j \<in> set js \<Longrightarrow> j \<noteq> i \<Longrightarrow> \<exists>d. getitem dm i j = Inr d) \<Longrightarrow>
     \<exists>ds. seq_distances dm i js = Inr ds"
proof (induction js)
  case Nil
  then show ?case by simp
next
  case (Cons j js)
  from Cons.IH Cons.prems obtain ds where ds: "seq_distances dm i js = Inr ds"
    by auto
  show ?case
  proof (cases "i = j")
    case True
    then show ?thesis using ds by simp
  next
    case False
    then obtain d where "getitem dm i j = Inr d" using Cons.prems [of j] by auto
    then show ?thesis using ds False by simp
  qed
qed

lemma avg_loop_total:
  "(\<And>i. i \<in> set is \<Longrightarrow> \<exists>ds. seq_distances dm i [0..<n] = Inr ds) \<Longrightarrow>
     \<exists>avgs. avg_loop dm n is = Inr avgs"
proof (induction "is")
  case Nil
  then show ?case by simp
next
  case (Cons i "is")
  from Cons.IH Cons.prems obtain avgs where "avg_loop dm n is = Inr avgs" by auto
  moreover obtain ds where "seq_distances dm i [0..<n] = Inr ds" using Cons.prems [of i] by auto
  ultimately show ?case by simp
qed

lemma getitem_wf:
  assumes "wf_matrix dm" "i < length (names dm)" "j < length (names dm)"
  shows "\<exists>d. getitem dm i j = Inr d"
proof -
  have len: "length (matrix dm) = length (names dm)"
    and rows: "\<And>k. k < length (names dm) \<Longrightarrow> length (matrix dm ! k) = Suc k"
    using assms(1) by (auto simp: wf_matrix_def list_all_iff)
  show ?thesis using assms(2,3) rows [of i] rows [of j]
    by (auto simp: getitem_def list_get_def len)
qed

lemma analyze_too_many_ids:
  assumes "2 \<le> length ids" "length (names dm) < length ids"
  shows "analyze_distances dm ids t = Inl IndexError"
proof -
  define n where "n = length ids"
  define j where "j = max 1 (length (names dm))"
  have j: "j \<in> set [0..<n]" "j \<noteq> 0" "getitem dm 0 j = Inl IndexError"
    using assms by (auto simp: j_def n_def getitem_def)
  have "seq_distances dm 0 [0..<n] = Inl IndexError"
  proof (cases "seq_distances dm 0 [0..<n]")
    case (Inl e)
    then show ?thesis using seq_distances_error by blast
  next
    case (Inr ds)
    then show ?thesis using seq_distances_reads [OF Inr j(1)] j(2,3) by auto
  qed
  moreover have "0 < n" using assms(1) by (cases ids) (auto simp: n_def)
  then have "[0..<n] = 0 # [Suc 0..<n]" by (rule upt_conv_Cons)
  ultimately show ?thesis
    by (simp add: analyze_distances_def Let_def n_def [symmetric])
qed

lemma analyze_fewer_ids:
  assumes "wf_matrix dm" "length ids \<le> length (names dm)"
  shows "\<exists>r. analyze_distances dm ids t = Inr r"
proof -
  have "\<exists>ds. seq_distances dm i [0..<length ids] = Inr ds" if "i \<in> set [0..<length ids]" for i
    using that assms by (intro seq_distances_total getitem_wf) auto
  then obtain avgs where "avg_loop dm (length ids) [0..<length ids] = Inr avgs"
    using avg_loop_total by blast
  then show ?thesis by (simp add: analyze_distances_def Let_def)
qed




subsection \<open>The example inputs, evaluated\<close>

lemmas build_defs = calculate_distance_matrix_def DistanceCalculator_def get_distance_def new_matrix_def
     pairwise_def identity_pairwise_def setitem_def set_zero_diagonal_def upt_rec numeral_eq_Suc

lemma scenario_built: "calculate_distance_matrix lib scenario ''identity'' = Inr (Some scenario_matrix)"
  by (simp add: build_defs scenario_def scenario_matrix_def)

lemma two_pairs_built: "calculate_distance_matrix lib two_pairs ''identity'' = Inr (Some two_pairs_matrix)"
  by (simp add: build_defs two_pairs_def two_pairs_matrix_def)

lemma scenario_avgs:
  "avg_loop scenario_matrix 4 [0..<4] = Inr [Fin (1/3), Fin (1/3), Fin (1/3), Fin 1]"
  by (simp add: scenario_matrix_def getitem_def list_get_def np_mean_def np_divide_def upt_rec)

lemma two_pairs_avgs:
  "avg_loop two_pairs_matrix 4 [0..<4] = Inr [Fin (2/3), Fin (2/3), Fin (1/3), Fin (1/3)]"
  by (simp add: two_pairs_matrix_def getitem_def list_get_def np_mean_def np_divide_def upt_rec)

lemma scenario_mean: "mean [1/3, 1/3, 1/3, 1] = 1/2"
  by (simp add: mean_def)

lemma scenario_std: "np_std [1/3, 1/3, 1/3, 1] = sqrt (1/12)"
  by (simp add: np_std_def mean_def power2_eq_square)

lemma sqrt_12: "sqrt 12 = 2 * sqrt 3"
proof -
  have "sqrt 12 = sqrt (4 * 3)" by simp
  also have "\<dots> = 2 * sqrt 3" by (simp only: real_sqrt_mult) simp
  finally show ?thesis .
qed

lemma scenario_zscore:
  "zscore [Fin (1/3), Fin (1/3), Fin (1/3), Fin 1] =
     [Fin (- (sqrt 3 / 3)), Fin (- (sqrt 3 / 3)), Fin (- (sqrt 3 / 3)), Fin (sqrt 3)]"
  by (simp add: zscore_def scenario_std scenario_mean np_divide_def real_sqrt_divide sqrt_12)

lemma two_pairs_std: "np_std [2/3, 2/3, 1/3, 1/3] = 1/6"
proof -
  have "np_std [2/3, 2/3, 1/3, 1/3] = sqrt ((1/6)\<^sup>2)"
    by (simp add: np_std_def mean_def power2_eq_square)
  then show ?thesis by simp
qed

lemma two_pairs_zscore:
  "zscore [Fin (2/3), Fin (2/3), Fin (1/3), Fin (1/3)] = [Fin 1, Fin 1, Fin (- 1), Fin (- 1)]"
  by (simp add: zscore_def two_pairs_std np_divide_def mean_def)

lemma sqrt3_bounds: "1.7315 < sqrt 3 \<and> sqrt 3 < 1.7325"
proof
  show "1.7315 < sqrt 3" by (rule real_less_rsqrt) (simp add: power2_eq_square)
  show "sqrt 3 < 1.7325" by (rule real_less_lsqrt) (simp_all add: power2_eq_square)
qed

lemma sigma_bounds: "0.28865 < sqrt (1/12) \<and> sqrt (1/12) < 0.28875"
proof
  show "0.28865 < sqrt (1/12)" by (rule real_less_rsqrt) (simp add: power2_eq_square)
  show "sqrt (1/12) < 0.28875" by (rule real_less_lsqrt) (simp_all add: power2_eq_square)
qed

lemma scenario_analyze:
  "analyze_distances scenario_matrix [''A'', ''B'', ''C'', ''D''] t =
     Inr (flag_outliers [''A'', ''B'', ''C'', ''D''] t 0
            (zip [Fin (1/3), Fin (1/3), Fin (1/3), Fin 1]
               [Fin (- (sqrt 3 / 3)), Fin (- (sqrt 3 / 3)), Fin (- (sqrt 3 / 3)), Fin (sqrt 3)]),
          [Fin (1/3), Fin (1/3), Fin (1/3), Fin 1],
          [Fin (- (sqrt 3 / 3)), Fin (- (sqrt 3 / 3)), Fin (- (sqrt 3 / 3)), Fin (sqrt 3)])"
proof -
  have len: "length [''A'', ''B'', ''C'', ''D''] = 4" by simp
  show ?thesis
    unfolding analyze_distances_def Let_def len
    by (simp only: scenario_avgs scenario_zscore sum.case)
qed

text \<open>
  C1. For the alignment A = AAAA, B = AAAA, C = AAAA, D = TTTT under the identity model
  the matrix has distance 0 between A, B and C and distance 1 to D; the mean distances
  are 1/3, 1/3, 1/3 and 1; their mean is 1/2 and their population standard deviation
  (divisor 4) is the root of 1/12, about 0.2887; the z-score of D is the root of 3, about
  1.732; no sequence is flagged at the threshold 3.0 and exactly D at the threshold 1.5.
\<close>

theorem four_sequence_scenario:
  "calculate_distance_matrix lib scenario ''identity'' = Inr (Some scenario_matrix) \<and>
   mean [1/3, 1/3, 1/3, 1] = 1/2 \<and>
   np_std [1/3, 1/3, 1/3, 1] = sqrt (1/12) \<and>
   \<bar>sqrt (1/12) - 0.2887\<bar> < 0.0001 \<and>
   \<bar>sqrt 3 - 1.732\<bar> < 0.001 \<and>
   analyze_distances scenario_matrix (map fst scenario) (Fin 3) =
     Inr ([],
          [Fin (1/3), Fin (1/3), Fin (1/3), Fin 1],
          [Fin (- (sqrt 3 / 3)), Fin (- (sqrt 3 / 3)), Fin (- (sqrt 3 / 3)), Fin (sqrt 3)]) \<and>
   analyze_distances scenario_matrix (map fst scenario) (Fin 1.5) =
     Inr ([(''D'', Fin 1, Fin (sqrt 3))],
          [Fin (1/3), Fin (1/3), Fin (1/3), Fin 1],
          [Fin (- (sqrt 3 / 3)), Fin (- (sqrt 3 / 3)), Fin (- (sqrt 3 / 3)), Fin (sqrt 3)])"
proof -
  have ids: "map fst scenario = [''A'', ''B'', ''C'', ''D'']" by (simp add: scenario_def)
  have lo: "3 / 2 < sqrt 3" and hi: "sqrt 3 < 3" using sqrt3_bounds by simp_all
  have neg: "\<not> 3 / 2 < - (sqrt 3 / 3)" "\<not> 3 < - (sqrt 3 / 3)" "\<not> 3 < sqrt 3"
    using lo hi by simp_all
  have a3: "analyze_distances scenario_matrix (map fst scenario) (Fin 3) =
     Inr ([],
          [Fin (1/3), Fin (1/3), Fin (1/3), Fin 1],
          [Fin (- (sqrt 3 / 3)), Fin (- (sqrt 3 / 3)), Fin (- (sqrt 3 / 3)), Fin (sqrt 3)])"
    unfolding ids scenario_analyze using neg by simp
  have a15: "analyze_distances scenario_matrix (map fst scenario) (Fin 1.5) =
     Inr ([(''D'', Fin 1, Fin (sqrt 3))],
          [Fin (1/3), Fin (1/3), Fin (1/3), Fin 1],
          [Fin (- (sqrt 3 / 3)), Fin (- (sqrt 3 / 3)), Fin (- (sqrt 3 / 3)), Fin (sqrt 3)])"
    unfolding ids scenario_analyze using neg lo by simp
  have "sqrt (1/12) - 0.2887 < 0.0001" "- (sqrt (1/12) - 0.2887) < 0.0001"
    using sigma_bounds by simp_all
  then have s: "\<bar>sqrt (1/12) - 0.2887\<bar> < 0.0001" by (simp only: abs_less_iff)
  have "sqrt 3 - 1.732 < 0.001" "- (sqrt 3 - 1.732) < 0.001"
    using sqrt3_bounds by simp_all
  then have z: "\<bar>sqrt 3 - 1.732\<bar> < 0.001" by (simp only: abs_less_iff)
  show ?thesis using scenario_built scenario_mean scenario_std s z a3 a15 by blast
qed



lemma two_pairs_analyze:
  "analyze_distances two_pairs_matrix [''s1'', ''s2'', ''s3'', ''s4''] t =
     Inr (flag_outliers [''s1'', ''s2'', ''s3'', ''s4''] t 0
            (zip [Fin (2/3), Fin (2/3), Fin (1/3), Fin (1/3)] [Fin 1, Fin 1, Fin (- 1), Fin (- 1)]),
          [Fin (2/3), Fin (2/3), Fin (1/3), Fin (1/3)],
          [Fin 1, Fin 1, Fin (- 1), Fin (- 1)])"
proof -
  have len: "length [''s1'', ''s2'', ''s3'', ''s4''] = 4" by simp
  show ?thesis
    unfolding analyze_distances_def Let_def len
    by (simp only: two_pairs_avgs two_pairs_zscore sum.case)
qed

lemma exact_pairs_built:
  "calculate_distance_matrix lib exact_pairs ''identity'' = Inr (Some exact_pairs_matrix)"
  by (simp add: build_defs exact_pairs_def exact_pairs_matrix_def)

lemma exact_pairs_avgs:
  "avg_loop exact_pairs_matrix 4 [0..<4] = Inr [Fin (1/2), Fin (1/2), Fin (1/4), Fin (1/4)]"
  by (simp add: exact_pairs_matrix_def getitem_def list_get_def np_mean_def np_divide_def upt_rec)

lemma exact_pairs_std: "np_std [1/2, 1/2, 1/4, 1/4] = 1/8"
proof -
  have "np_std [1/2, 1/2, 1/4, 1/4] = sqrt ((1/8)\<^sup>2)"
    by (simp add: np_std_def mean_def power2_eq_square)
  then show ?thesis by simp
qed

lemma exact_pairs_zscore:
  "zscore [Fin (1/2), Fin (1/2), Fin (1/4), Fin (1/4)] = [Fin 1, Fin 1, Fin (- 1), Fin (- 1)]"
  by (simp add: zscore_def exact_pairs_std np_divide_def mean_def)

lemma exact_pairs_analyze:
  "analyze_distances exact_pairs_matrix [''s1'', ''s2'', ''s3'', ''s4''] t =
     Inr (flag_outliers [''s1'', ''s2'', ''s3'', ''s4''] t 0
            (zip [Fin (1/2), Fin (1/2), Fin (1/4), Fin (1/4)] [Fin 1, Fin 1, Fin (- 1), Fin (- 1)]),
          [Fin (1/2), Fin (1/2), Fin (1/4), Fin (1/4)],
          [Fin 1, Fin 1, Fin (- 1), Fin (- 1)])"
proof -
  have len: "length [''s1'', ''s2'', ''s3'', ''s4''] = 4" by simp
  show ?thesis
    unfolding analyze_distances_def Let_def len
    by (simp only: exact_pairs_avgs exact_pairs_zscore sum.case)
qed

subsection \<open>Identical sequences\<close>








subsection \<open>Fewer than two sequences\<close>

text \<open>
  C3, as the code has it. With fewer than two identifiers \<open>analyze_distances\<close> reads
  nothing of the matrix and raises nothing: it returns no outlier, and NaN as the mean
  distance and as the z-score of the one sequence, if there is one.
\<close>

theorem fewer_than_two_sequences_no_error:
  assumes "length ids < 2"
  shows "analyze_distances dm ids t = Inr ([], map (\<lambda>_. NaN) ids, map (\<lambda>_. NaN) ids)"
proof -
  consider "ids = []" | x where "ids = [x]"
    using assms by (cases ids; cases "tl ids") auto
  then show ?thesis
  proof cases
    case 1
    then show ?thesis by (simp add: analyze_distances_def zscore_def)
  next
    case 2
    then show ?thesis
      by (simp add: analyze_distances_def zscore_def np_mean_def np_divide_def Let_def)
  qed
qed

theorem fewer_than_two_sequences_no_error_witness:
  "length ([] :: string list) < 2 \<and>
   analyze_distances \<lparr>names = [], matrix = []\<rparr> [] (Fin 3) = Inr ([], [], [])"
proof -
  have h: "length ([] :: string list) < 2" by simp
  show ?thesis
    using h fewer_than_two_sequences_no_error [OF h, of "\<lparr>names = [], matrix = []\<rparr>" "Fin 3"]
    by simp
qed

text \<open>C3 as stated fails: one sequence gives a result, not an error.\<close>

theorem one_sequence_returns_a_result:
  "analyze_distances \<lparr>names = [''A''], matrix = [[0]]\<rparr> [''A''] (Fin 3) = Inr ([], [NaN], [NaN])"
  by (simp add: analyze_distances_def Let_def np_mean_def np_divide_def zscore_def)

subsection \<open>Identifiers and matrix of different sizes\<close>

lemma seq_distances_wf:
  assumes "wf_matrix dm" "i < length (names dm)"
  shows "(\<And>j. j \<in> set js \<Longrightarrow> j < length (names dm)) \<Longrightarrow>
     seq_distances dm i js =
       Inr (map (\<lambda>j. matrix dm ! max i j ! min i j) (filter (\<lambda>j. i \<noteq> j) js))"
proof (induction js)
  case Nil
  then show ?case by simp
next
  case (Cons j js)
  have j: "j < length (names dm)" using Cons.prems [of j] by simp
  have rest: "seq_distances dm i js =
       Inr (map (\<lambda>j. matrix dm ! max i j ! min i j) (filter (\<lambda>j. i \<noteq> j) js))"
    using Cons.IH Cons.prems by simp
  show ?case
  proof (cases "i = j")
    case True
    then show ?thesis using rest by simp
  next
    case False
    then show ?thesis using rest getitem_value [OF assms(1,2) j] by simp
  qed
qed

lemma avg_loop_wf:
  assumes "wf_matrix dm" "n \<le> length (names dm)"
  shows "(\<And>i. i \<in> set is \<Longrightarrow> i < n) \<Longrightarrow>
     avg_loop dm n is =
       Inr (map (\<lambda>i. np_mean (map (\<lambda>j. matrix dm ! max i j ! min i j)
                                (filter (\<lambda>j. i \<noteq> j) [0..<n]))) is)"
proof (induction "is")
  case Nil
  then show ?case by simp
next
  case (Cons i "is")
  have i: "i < length (names dm)" using Cons.prems [of i] assms(2) by simp
  have row: "seq_distances dm i [0..<n] =
       Inr (map (\<lambda>j. matrix dm ! max i j ! min i j) (filter (\<lambda>j. i \<noteq> j) [0..<n]))"
    using assms(2) by (intro seq_distances_wf [OF assms(1) i]) simp
  have rest: "avg_loop dm n is =
       Inr (map (\<lambda>i. np_mean (map (\<lambda>j. matrix dm ! max i j ! min i j)
                                (filter (\<lambda>j. i \<noteq> j) [0..<n]))) is)"
    using Cons.IH Cons.prems by simp
  show ?case by (simp add: row rest)
qed

lemma analyze_leading_block:
  assumes "wf_matrix dm" "length ids \<le> length (names dm)"
  shows "analyze_distances dm ids t =
     (let avgs = map (\<lambda>i. np_mean (map (\<lambda>j. matrix dm ! max i j ! min i j)
                                      (filter (\<lambda>j. i \<noteq> j) [0..<length ids])))
                   [0..<length ids];
          zs = zscore avgs
      in Inr (flag_outliers ids t 0 (zip avgs zs), avgs, zs))"
proof -
  have "avg_loop dm (length ids) [0..<length ids] =
       Inr (map (\<lambda>i. np_mean (map (\<lambda>j. matrix dm ! max i j ! min i j)
                                (filter (\<lambda>j. i \<noteq> j) [0..<length ids]))) [0..<length ids])"
    by (rule avg_loop_wf [OF assms]) simp
  then show ?thesis by (simp add: analyze_distances_def Let_def)
qed

lemma wf_matrix_take:
  assumes "wf_matrix dm" "n \<le> length (names dm)"
  shows "wf_matrix \<lparr>names = take n (names dm), matrix = take n (matrix dm)\<rparr>"
  using assms by (auto simp: wf_matrix_iff)

text \<open>
  C5, as the code has it. \<open>analyze_distances\<close> does not compare the number of
  identifiers with the size of the matrix. With at least two identifiers and more of them
  than the matrix has names, a read of the matrix fails with IndexError. With no more
  identifiers than names, a matrix of the library's shape is read in its leading block
  only: the means are those of the entries at positions below the number of identifiers,
  and the result is the result for the matrix cut down to that block.
\<close>

theorem dimensions_are_not_compared:
  "(2 \<le> length ids \<and> length (names dm) < length ids \<longrightarrow>
      analyze_distances dm ids t = Inl IndexError) \<and>
   (wf_matrix dm \<and> length ids \<le> length (names dm) \<longrightarrow>
      analyze_distances dm ids t =
        (let avgs = map (\<lambda>i. np_mean (map (\<lambda>j. matrix dm ! max i j ! min i j)
                                         (filter (\<lambda>j. i \<noteq> j) [0..<length ids])))
                      [0..<length ids];
             zs = zscore avgs
         in Inr (flag_outliers ids t 0 (zip avgs zs), avgs, zs)) \<and>
      analyze_distances dm ids t =
        analyze_distances
          \<lparr>names = take (length ids) (names dm), matrix = take (length ids) (matrix dm)\<rparr> ids t)"
proof (intro conjI impI)
  assume "2 \<le> length ids \<and> length (names dm) < length ids"
  then show "analyze_distances dm ids t = Inl IndexError"
    using analyze_too_many_ids [of ids dm t] by blast
next
  assume a: "wf_matrix dm \<and> length ids \<le> length (names dm)"
  then show "analyze_distances dm ids t =
        (let avgs = map (\<lambda>i. np_mean (map (\<lambda>j. matrix dm ! max i j ! min i j)
                                         (filter (\<lambda>j. i \<noteq> j) [0..<length ids])))
                      [0..<length ids];
             zs = zscore avgs
         in Inr (flag_outliers ids t 0 (zip avgs zs), avgs, zs))"
    using analyze_leading_block [of dm ids t] by blast
next
  assume a: "wf_matrix dm \<and> length ids \<le> length (names dm)"
  define n where "n = length ids"
  define block where "block = \<lparr>names = take n (names dm), matrix = take n (matrix dm)\<rparr>"
  have wf: "wf_matrix block" unfolding block_def using a by (intro wf_matrix_take) (simp_all add: n_def)
  have len: "length ids \<le> length (names block)" using a by (simp add: block_def n_def)
  have entry: "matrix block ! max i j ! min i j = matrix dm ! max i j ! min i j"
    if "i < n" "j < n" for i j
    using that by (simp add: block_def)
  have avgs: "map (\<lambda>i. np_mean (map (\<lambda>j. matrix block ! max i j ! min i j)
                                         (filter (\<lambda>j. i \<noteq> j) [0..<n]))) [0..<n] =
      map (\<lambda>i. np_mean (map (\<lambda>j. matrix dm ! max i j ! min i j)
                                         (filter (\<lambda>j. i \<noteq> j) [0..<n]))) [0..<n]"
    by (intro map_cong refl arg_cong [where f = np_mean]) (simp add: entry)
  have "analyze_distances block ids t = analyze_distances dm ids t"
    unfolding analyze_leading_block [OF wf len] n_def [symmetric]
    using a analyze_leading_block [of dm ids t] by (simp only: avgs n_def [symmetric])
  then show "analyze_distances dm ids t =
        analyze_distances
          \<lparr>names = take (length ids) (names dm), matrix = take (length ids) (matrix dm)\<rparr> ids t"
    by (simp add: block_def n_def)
qed

text \<open>
  The theorem at the matrix of the four sequences A, B, C, D, with five identifiers and
  with three.
\<close>

theorem dimensions_are_not_compared_witness:
  "2 \<le> length [''A'', ''B'', ''C'', ''D'', ''E''] \<and>
   length (names scenario_matrix) < length [''A'', ''B'', ''C'', ''D'', ''E''] \<and>
   analyze_distances scenario_matrix [''A'', ''B'', ''C'', ''D'', ''E''] (Fin 3) = Inl IndexError \<and>
   wf_matrix scenario_matrix \<and> length [''A'', ''B'', ''C''] \<le> length (names scenario_matrix) \<and>
   analyze_distances scenario_matrix [''A'', ''B'', ''C''] (Fin 2) =
     analyze_distances
       \<lparr>names = take (length [''A'', ''B'', ''C'']) (names scenario_matrix),
        matrix = take (length [''A'', ''B'', ''C'']) (matrix scenario_matrix)\<rparr>
       [''A'', ''B'', ''C''] (Fin 2)"
proof -
  have a: "2 \<le> length [''A'', ''B'', ''C'', ''D'', ''E''] \<and>
    length (names scenario_matrix) < length [''A'', ''B'', ''C'', ''D'', ''E'']"
    by (simp add: scenario_matrix_def)
  have b: "wf_matrix scenario_matrix \<and> length [''A'', ''B'', ''C''] \<le> length (names scenario_matrix)"
    by (simp add: scenario_matrix_def wf_matrix_def upt_rec)
  from dimensions_are_not_compared [of "[''A'', ''B'', ''C'', ''D'', ''E'']" scenario_matrix "Fin 3"]
  have "2 \<le> length [''A'', ''B'', ''C'', ''D'', ''E''] \<and>
    length (names scenario_matrix) < length [''A'', ''B'', ''C'', ''D'', ''E''] \<longrightarrow>
    analyze_distances scenario_matrix [''A'', ''B'', ''C'', ''D'', ''E''] (Fin 3) = Inl IndexError"
    by (rule conjunct1)
  from this a
  have r1: "analyze_distances scenario_matrix [''A'', ''B'', ''C'', ''D'', ''E''] (Fin 3) = Inl IndexError"
    by (rule mp)
  from dimensions_are_not_compared [of "[''A'', ''B'', ''C'']" scenario_matrix "Fin 2"] b
  have r2: "analyze_distances scenario_matrix [''A'', ''B'', ''C''] (Fin 2) =
     analyze_distances
       \<lparr>names = take (length [''A'', ''B'', ''C'']) (names scenario_matrix),
        matrix = take (length [''A'', ''B'', ''C'']) (matrix scenario_matrix)\<rparr>
       [''A'', ''B'', ''C''] (Fin 2)"
    by blast
  from a b r1 r2 show ?thesis by blast
qed

text \<open>
  C5 as stated fails: three identifiers with the matrix of four sequences give a result,
  not an error.
\<close>

theorem three_ids_four_by_four_matrix:
  "analyze_distances scenario_matrix [''A'', ''B'', ''C''] (Fin 3) =
     Inr ([], [Fin 0, Fin 0, Fin 0], [NaN, NaN, NaN])"
  by (simp add: analyze_distances_def Let_def scenario_matrix_def getitem_def list_get_def
        np_mean_def np_divide_def zscore_def upt_rec)

subsection \<open>The threshold\<close>

text \<open>
  C6. The outliers returned are, in the order of the identifiers, exactly the sequences
  whose z-score is greater than the threshold: a sequence is among them if and only if
  its z-score is greater; for a finite z-score \<open>z\<close> and a finite threshold \<open>th\<close>
  that is \<open>th < z\<close>; a sequence is never among them when its z-score or the threshold
  is NaN, nor when its z-score equals the threshold.
\<close>

theorem outlier_iff_zscore_above_threshold:
  assumes "analyze_distances dm ids t = Inr (outs, avgs, zs)"
  shows "outs = map (\<lambda>i. (ids ! i, avgs ! i, zs ! i))
                  (filter (\<lambda>i. fgt (zs ! i) t) [0..<length ids]) \<and>
         (\<forall>i<length ids. (ids ! i, avgs ! i, zs ! i) \<in> set outs \<longleftrightarrow> fgt (zs ! i) t) \<and>
         (\<forall>i<length ids. \<forall>z th. zs ! i = Fin z \<and> t = Fin th \<longrightarrow>
            ((ids ! i, avgs ! i, zs ! i) \<in> set outs \<longleftrightarrow> th < z)) \<and>
         (\<forall>i<length ids. zs ! i = NaN \<or> t = NaN \<longrightarrow> (ids ! i, avgs ! i, zs ! i) \<notin> set outs) \<and>
         (\<forall>i<length ids. zs ! i = t \<longrightarrow> (ids ! i, avgs ! i, zs ! i) \<notin> set outs)"
proof -
  from assms have avgs: "avg_loop dm (length ids) [0..<length ids] = Inr avgs"
    and zs: "zs = zscore avgs" and outs: "outs = flag_outliers ids t 0 (zip avgs zs)"
    by (simp_all add: analyze_distances_Inr)
  have la: "length avgs = length ids" using avg_loop_length [OF avgs] by simp
  have lz: "length zs = length ids" using la zs by (simp add: zscore_length)
  have eq: "outs = map (\<lambda>i. (ids ! i, avgs ! i, zs ! i))
                  (filter (\<lambda>i. fgt (zs ! i) t) [0..<length ids])"
    unfolding outs by (rule outliers_by_index [OF la lz])
  have iff: "(ids ! i, avgs ! i, zs ! i) \<in> set outs \<longleftrightarrow> fgt (zs ! i) t" if "i < length ids" for i
  proof
    assume "(ids ! i, avgs ! i, zs ! i) \<in> set outs"
    then obtain k where "fgt (zs ! k) t" "zs ! k = zs ! i"
      unfolding eq by auto
    then show "fgt (zs ! i) t" by simp
  next
    assume "fgt (zs ! i) t"
    then show "(ids ! i, avgs ! i, zs ! i) \<in> set outs"
      unfolding eq using that by auto
  qed
  have real_order: "(ids ! i, avgs ! i, zs ! i) \<in> set outs \<longleftrightarrow> th < z"
    if "i < length ids" "zs ! i = Fin z" "t = Fin th" for i z th
    using iff [OF that(1)] that(2,3) by simp
  have nan: "(ids ! i, avgs ! i, zs ! i) \<notin> set outs"
    if "i < length ids" "zs ! i = NaN \<or> t = NaN" for i
  proof -
    have "\<not> fgt (zs ! i) t" using that(2) by (cases "zs ! i") auto
    then show ?thesis using iff [OF that(1)] by simp
  qed
  have tie: "(ids ! i, avgs ! i, zs ! i) \<notin> set outs" if "i < length ids" "zs ! i = t" for i
    using iff [OF that(1)] that(2) fgt_irrefl [of t] by simp
  show ?thesis
  proof (intro conjI allI impI)
    show "outs = map (\<lambda>i. (ids ! i, avgs ! i, zs ! i))
                  (filter (\<lambda>i. fgt (zs ! i) t) [0..<length ids])" by (rule eq)
  next
    fix i assume "i < length ids"
    then show "(ids ! i, avgs ! i, zs ! i) \<in> set outs \<longleftrightarrow> fgt (zs ! i) t" by (rule iff)
  next
    fix i z th assume "i < length ids" "zs ! i = Fin z \<and> t = Fin th"
    then show "(ids ! i, avgs ! i, zs ! i) \<in> set outs \<longleftrightarrow> th < z"
      using real_order by blast
  next
    fix i assume "i < length ids" "zs ! i = NaN \<or> t = NaN"
    then show "(ids ! i, avgs ! i, zs ! i) \<notin> set outs" by (rule nan)
  next
    fix i assume "i < length ids" "zs ! i = t"
    then show "(ids ! i, avgs ! i, zs ! i) \<notin> set outs" by (rule tie)
  qed
qed

text \<open>
  The theorem at the alignment of two dyadic pairs: at the threshold 1/2 the sequences
  s1 and s2, with z-score 1, are flagged and s3 is not; at the threshold 1 their z-scores
  tie with the threshold and nothing is flagged.
\<close>

theorem outlier_iff_zscore_above_threshold_witness:
  "calculate_distance_matrix identity_only exact_pairs ''identity'' = Inr (Some exact_pairs_matrix) \<and>
   analyze_distances exact_pairs_matrix (map fst exact_pairs) (Fin (1/2)) =
     Inr ([(''s1'', Fin (1/2), Fin 1), (''s2'', Fin (1/2), Fin 1)],
          [Fin (1/2), Fin (1/2), Fin (1/4), Fin (1/4)], [Fin 1, Fin 1, Fin (- 1), Fin (- 1)]) \<and>
   ((''s1'', Fin (1/2), Fin 1) \<in> set [(''s1'', Fin (1/2), Fin 1), (''s2'', Fin (1/2), Fin 1)]) =
     ((1/2 :: real) < 1) \<and>
   ((''s3'', Fin (1/4), Fin (- 1)) \<in> set [(''s1'', Fin (1/2), Fin 1), (''s2'', Fin (1/2), Fin 1)]) =
     ((1/2 :: real) < - 1) \<and>
   analyze_distances exact_pairs_matrix (map fst exact_pairs) (Fin 1) =
     Inr ([], [Fin (1/2), Fin (1/2), Fin (1/4), Fin (1/4)], [Fin 1, Fin 1, Fin (- 1), Fin (- 1)]) \<and>
   (''s1'', Fin (1/2), Fin 1) \<notin> set ([] :: (string \<times> npfloat \<times> npfloat) list)"
proof -
  have ids: "map fst exact_pairs = [''s1'', ''s2'', ''s3'', ''s4'']" by (simp add: exact_pairs_def)
  have b: "calculate_distance_matrix identity_only exact_pairs ''identity'' =
      Inr (Some exact_pairs_matrix)"
    by (rule exact_pairs_built)
  have h: "analyze_distances exact_pairs_matrix (map fst exact_pairs) (Fin (1/2)) =
     Inr ([(''s1'', Fin (1/2), Fin 1), (''s2'', Fin (1/2), Fin 1)],
          [Fin (1/2), Fin (1/2), Fin (1/4), Fin (1/4)], [Fin 1, Fin 1, Fin (- 1), Fin (- 1)])"
    unfolding ids exact_pairs_analyze by simp
  have g: "analyze_distances exact_pairs_matrix (map fst exact_pairs) (Fin 1) =
     Inr ([], [Fin (1/2), Fin (1/2), Fin (1/4), Fin (1/4)], [Fin 1, Fin 1, Fin (- 1), Fin (- 1)])"
    unfolding ids exact_pairs_analyze by simp
  note th = outlier_iff_zscore_above_threshold [OF h, unfolded ids]
  note tg = outlier_iff_zscore_above_threshold [OF g, unfolded ids]
  from th have r: "\<forall>i<length [''s1'', ''s2'', ''s3'', ''s4'']. \<forall>z th.
       [Fin 1, Fin 1, Fin (- 1), Fin (- 1)] ! i = Fin z \<and> Fin (1/2) = Fin th \<longrightarrow>
       (([''s1'', ''s2'', ''s3'', ''s4''] ! i, [Fin (1/2), Fin (1/2), Fin (1/4), Fin (1/4)] ! i,
         [Fin 1, Fin 1, Fin (- 1), Fin (- 1)] ! i)
        \<in> set [(''s1'', Fin (1/2), Fin 1), (''s2'', Fin (1/2), Fin 1)]) = (th < z)"
    by (rule conjunct2 [THEN conjunct2, THEN conjunct1])
  have r0: "((''s1'', Fin (1/2), Fin 1) \<in> set [(''s1'', Fin (1/2), Fin 1), (''s2'', Fin (1/2), Fin 1)]) =
     ((1/2 :: real) < 1)"
    using r [rule_format, of 0 1 "1/2"] by simp
  have r2: "((''s3'', Fin (1/4), Fin (- 1)) \<in> set [(''s1'', Fin (1/2), Fin 1), (''s2'', Fin (1/2), Fin 1)]) =
     ((1/2 :: real) < - 1)"
    using r [rule_format, of 2 "- 1" "1/2"] by simp
  from tg have t: "\<forall>i<length [''s1'', ''s2'', ''s3'', ''s4''].
       [Fin 1, Fin 1, Fin (- 1), Fin (- 1)] ! i = Fin 1 \<longrightarrow>
       ([''s1'', ''s2'', ''s3'', ''s4''] ! i, [Fin (1/2), Fin (1/2), Fin (1/4), Fin (1/4)] ! i,
         [Fin 1, Fin 1, Fin (- 1), Fin (- 1)] ! i)
        \<notin> set ([] :: (string \<times> npfloat \<times> npfloat) list)"
    by (rule conjunct2 [THEN conjunct2, THEN conjunct2, THEN conjunct2])
  have t0: "(''s1'', Fin (1/2), Fin 1) \<notin> set ([] :: (string \<times> npfloat \<times> npfloat) list)"
    using t [rule_format, of 0] by simp
  from b h r0 r2 g t0 show ?thesis by (intro conjI)
qed

text \<open>
  C7. For thresholds \<open>t1 <= t2\<close> the analysis at \<open>t2\<close> returns the same means and
  z-scores as at \<open>t1\<close>, and its outliers are among those at \<open>t1\<close>.
\<close>

theorem outliers_antitone_in_threshold:
  assumes "fle t1 t2" and "analyze_distances dm ids t1 = Inr (outs1, avgs, zs)"
  shows "\<exists>outs2. analyze_distances dm ids t2 = Inr (outs2, avgs, zs) \<and> set outs2 \<subseteq> set outs1"
proof -
  from assms(2) have avgs: "avg_loop dm (length ids) [0..<length ids] = Inr avgs"
    and zs: "zs = zscore avgs" and outs: "outs1 = flag_outliers ids t1 0 (zip avgs zs)"
    by (simp_all add: analyze_distances_Inr)
  have "analyze_distances dm ids t2 = Inr (flag_outliers ids t2 0 (zip avgs zs), avgs, zs)"
    using avgs zs by (simp add: analyze_distances_Inr)
  moreover have "set (flag_outliers ids t2 0 (zip avgs zs)) \<subseteq> set outs1"
    unfolding outs using assms(1) by (rule flag_outliers_antitone)
  ultimately show ?thesis by blast
qed

theorem outliers_antitone_in_threshold_witness:
  "fle (Fin 0) (Fin 1) \<and>
   analyze_distances two_pairs_matrix [''s1'', ''s2'', ''s3'', ''s4''] (Fin 0) =
     Inr ([(''s1'', Fin (2/3), Fin 1), (''s2'', Fin (2/3), Fin 1)],
          [Fin (2/3), Fin (2/3), Fin (1/3), Fin (1/3)], [Fin 1, Fin 1, Fin (- 1), Fin (- 1)]) \<and>
   (\<exists>outs2. analyze_distances two_pairs_matrix [''s1'', ''s2'', ''s3'', ''s4''] (Fin 1) =
       Inr (outs2, [Fin (2/3), Fin (2/3), Fin (1/3), Fin (1/3)], [Fin 1, Fin 1, Fin (- 1), Fin (- 1)]) \<and>
     set outs2 \<subseteq> set [(''s1'', Fin (2/3), Fin 1), (''s2'', Fin (2/3), Fin 1)])"
proof -
  have le: "fle (Fin 0) (Fin 1)" by simp
  have h: "analyze_distances two_pairs_matrix [''s1'', ''s2'', ''s3'', ''s4''] (Fin 0) =
     Inr ([(''s1'', Fin (2/3), Fin 1), (''s2'', Fin (2/3), Fin 1)],
          [Fin (2/3), Fin (2/3), Fin (1/3), Fin (1/3)], [Fin 1, Fin 1, Fin (- 1), Fin (- 1)])"
    unfolding two_pairs_analyze by simp
  show ?thesis using le h outliers_antitone_in_threshold [OF le h] by blast
qed

subsection \<open>The matrix Biopython builds\<close>

lemma index_of_less: "index_of xs a = Some i \<Longrightarrow> i < length xs"
  by (induction xs arbitrary: i) (auto split: if_splits option.splits)

lemma length_set_zero_diagonal: "length (set_zero_diagonal m) = length m"
  by (simp add: set_zero_diagonal_def)

lemma nth_set_zero_diagonal:
  "i < length m \<Longrightarrow> set_zero_diagonal m ! i = (m ! i)[i := 0]"
  by (simp add: set_zero_diagonal_def)

lemma identity_pairwise_range: "0 \<le> identity_pairwise s1 s2 \<and> identity_pairwise s1 s2 \<le> 1"
proof -
  have "length (filter (\<lambda>(l1, l2). l1 = l2) (zip s1 s2)) \<le> length (zip s1 s2)"
    by (rule length_filter_le)
  then have "length (filter (\<lambda>(l1, l2). l1 = l2) (zip s1 s2)) \<le> length s1" by simp
  then have "real (length (filter (\<lambda>(l1, l2). l1 = l2) (zip s1 s2))) \<le> real (length s1)"
    by simp
  then show ?thesis
    by (auto simp: identity_pairwise_def Let_def divide_le_eq)
qed

lemma setitem_shape:
  assumes "setitem dm a b v = Inr dm'" "wf_matrix dm"
  shows "names dm' = names dm \<and> wf_matrix dm' \<and> zero_diagonal dm'"
proof -
  from assms(1) obtain r c where rc: "index_of (names dm) a = Some r" "index_of (names dm) b = Some c"
    and dm': "dm' = dm\<lparr>matrix := set_zero_diagonal
        ((matrix dm)[max r c := (matrix dm ! max r c)[min r c := v]])\<rparr>"
    by (auto simp: setitem_def Let_def split: option.splits)
  have len: "length (matrix dm) = length (names dm)"
    and rows: "\<And>i. i < length (names dm) \<Longrightarrow> length (matrix dm ! i) = Suc i"
    using assms(2) by (auto simp: wf_matrix_iff)
  define m where "m = (matrix dm)[max r c := (matrix dm ! max r c)[min r c := v]]"
  have lm: "length m = length (names dm)" by (simp add: m_def len)
  have rm: "length (m ! i) = Suc i" if "i < length (names dm)" for i
    using that rows [of i] by (cases "i = max r c") (auto simp: m_def len)
  have "wf_matrix dm'"
    unfolding wf_matrix_iff using lm rm
    by (simp add: dm' m_def [symmetric] length_set_zero_diagonal nth_set_zero_diagonal)
  moreover have "zero_diagonal dm'"
    unfolding zero_diagonal_def list_all_iff using lm rm
    by (auto simp: dm' m_def [symmetric] length_set_zero_diagonal nth_set_zero_diagonal)
  ultimately show ?thesis by (simp add: dm')
qed

lemma setitem_unit:
  assumes "setitem dm a b v = Inr dm'" "unit_entries dm" "0 \<le> v" "v \<le> 1"
  shows "unit_entries dm'"
proof -
  from assms(1) obtain r c where
    dm': "dm' = dm\<lparr>matrix := set_zero_diagonal
        ((matrix dm)[max r c := (matrix dm ! max r c)[min r c := v]])\<rparr>"
    by (auto simp: setitem_def Let_def split: option.splits)
  have old: "\<And>row d. row \<in> set (matrix dm) \<Longrightarrow> d \<in> set row \<Longrightarrow> 0 \<le> d \<and> d \<le> 1"
    using assms(2) by (auto simp: unit_entries_def list_all_iff)
  define m where "m = (matrix dm)[max r c := (matrix dm ! max r c)[min r c := v]]"
  have m: "0 \<le> d \<and> d \<le> 1" if "row \<in> set m" "d \<in> set row" for row d
  proof -
    from that(1) have "row \<in> insert ((matrix dm ! max r c)[min r c := v]) (set (matrix dm))"
      unfolding m_def using set_update_subset_insert by fastforce
    then show ?thesis
    proof
      assume row: "row = (matrix dm ! max r c)[min r c := v]"
      show ?thesis
      proof (cases "max r c < length (matrix dm)")
        case True
        from that(2) have "d \<in> insert v (set (matrix dm ! max r c))"
          unfolding row using set_update_subset_insert by fastforce
        then show ?thesis using old [of "matrix dm ! max r c" d] True assms(3,4) by auto
      next
        case False
        then have "length (matrix dm) \<le> max r c" by (simp only: not_less)
        then have "m = matrix dm" unfolding m_def by (rule list_update_beyond)
        then show ?thesis using that old by auto
      qed
    next
      assume "row \<in> set (matrix dm)"
      then show ?thesis using old that(2) by blast
    qed
  qed
  have "0 \<le> d \<and> d \<le> 1" if "row \<in> set (set_zero_diagonal m)" "d \<in> set row" for row d
  proof -
    from that(1) obtain i where i: "i < length m" "row = (m ! i)[i := 0]"
      by (auto simp: set_zero_diagonal_def)
    from that(2) have "d \<in> insert 0 (set (m ! i))"
      unfolding i(2) using set_update_subset_insert by fastforce
    then show ?thesis using m [of "m ! i" d] i(1) by auto
  qed
  then show ?thesis
    by (auto simp: unit_entries_def list_all_iff dm' m_def [symmetric])
qed

lemma fill_distances_shape:
  "fill_distances lib scoring dm ps = Inr dm' \<Longrightarrow> wf_matrix dm \<Longrightarrow> zero_diagonal dm \<Longrightarrow>
     names dm' = names dm \<and> wf_matrix dm' \<and> zero_diagonal dm'"
proof (induction ps arbitrary: dm)
  case Nil
  then show ?case by simp
next
  case (Cons p ps)
  obtain seq1 seq2 where p: "p = (seq1, seq2)" by (cases p)
  from Cons.prems(1) obtain v dm1 where
    step: "setitem dm (fst seq1) (fst seq2) v = Inr dm1"
    and rest: "fill_distances lib scoring dm1 ps = Inr dm'"
    by (auto simp: p split: sum.splits)
  from setitem_shape [OF step Cons.prems(2)]
  have s: "names dm1 = names dm" "wf_matrix dm1" "zero_diagonal dm1" by simp_all
  from Cons.IH [OF rest s(2,3)] s(1) show ?case by simp
qed

lemma fill_distances_unit:
  "fill_distances lib None dm ps = Inr dm' \<Longrightarrow> unit_entries dm \<Longrightarrow> unit_entries dm'"
proof (induction ps arbitrary: dm)
  case Nil
  then show ?case by simp
next
  case (Cons p ps)
  obtain seq1 seq2 where p: "p = (seq1, seq2)" by (cases p)
  from Cons.prems(1) obtain dm1 where
    step: "setitem dm (fst seq1) (fst seq2) (identity_pairwise (snd seq1) (snd seq2)) = Inr dm1"
    and rest: "fill_distances lib None dm1 ps = Inr dm'"
    by (auto simp: p pairwise_def split: sum.splits)
  have "unit_entries dm1"
    using setitem_unit [OF step Cons.prems(2)] identity_pairwise_range by simp
  then show ?case using Cons.IH [OF rest] by simp
qed

lemma new_matrix_shape:
  assumes "new_matrix ns = Inr dm"
  shows "names dm = ns \<and> wf_matrix dm \<and> zero_diagonal dm \<and> unit_entries dm"
proof -
  from assms have dm: "dm = \<lparr>names = ns, matrix = map (\<lambda>i. replicate i 0) [1..<Suc (length ns)]\<rparr>"
    by (auto simp: new_matrix_def split: if_splits)
  show ?thesis
    unfolding dm wf_matrix_iff zero_diagonal_def unit_entries_def list_all_iff
    by (auto simp: nth_Cons' simp del: upt_Suc)
qed

lemma calculate_distance_matrix_Some:
  assumes "calculate_distance_matrix lib msa model = Inr (Some dm)"
  shows "\<exists>scoring dm0. DistanceCalculator lib model = Inr scoring \<and>
           new_matrix (map fst msa) = Inr dm0 \<and>
           fill_distances lib scoring dm0 (combinations2 msa) = Inr dm"
  using assms
  by (auto simp: calculate_distance_matrix_def get_distance_def split: sum.splits)

subsection \<open>The report\<close>

lemma report_result_writes: "fst (report_result fmt4 r b) = fst (report_result fmt4 r False)"
  by (simp add: report_result_def)

lemma report_result_found:
  "snd (report_result fmt4 r b) = (b \<or> outliers r \<noteq> [])"
  by (simp add: report_result_def)

lemma report_loop_eq:
  "report_loop fmt4 rs b =
     (concat (map (\<lambda>r. fst (report_result fmt4 r False)) [r. Some r \<leftarrow> rs]),
      b \<or> list_ex (\<lambda>r. outliers r \<noteq> []) [r. Some r \<leftarrow> rs])"
proof (induction rs arbitrary: b)
  case Nil
  then show ?case by simp
next
  case (Cons x rs)
  show ?case
  proof (cases x)
    case None
    then show ?thesis using Cons.IH [of b] by simp
  next
    case (Some r)
    obtain ws f where rr: "report_result fmt4 r b = (ws, f)" by (cases "report_result fmt4 r b")
    have ws: "ws = fst (report_result fmt4 r False)"
      using report_result_writes [of fmt4 r b] rr by simp
    have f: "f = (b \<or> outliers r \<noteq> [])" using report_result_found [of fmt4 r b] rr by simp
    show ?thesis using Cons.IH [of f] by (auto simp: Some rr ws f)
  qed
qed

lemma write_report_eq:
  "snd (write_report fmt4 results output_dir) =
     [''OUTLIER SEQUENCE ANALYSIS REPORT\<newline>'',
      ''===============================\<newline>\<newline>''] @
     concat (map (\<lambda>r. fst (report_result fmt4 r False)) [r. Some r \<leftarrow> results]) @
     (if list_ex (\<lambda>r. outliers r \<noteq> []) [r. Some r \<leftarrow> results] then []
      else [''No outlier sequences were detected in any alignments.\<newline>''])"
  by (simp add: write_report_def report_loop_eq)

lemma successes_filter:
  "[r. Some r \<leftarrow> filter (\<lambda>r. r \<noteq> None) results] = [r. Some r \<leftarrow> results]"
  by (induction results) (auto split: option.splits)

subsection \<open>Errors of loading and of building the matrix\<close>

lemma index_of_Some: "a \<in> set xs \<Longrightarrow> \<exists>i. index_of xs a = Some i"
  by (induction xs) auto

lemma setitem_total:
  "a \<in> set (names dm) \<Longrightarrow> b \<in> set (names dm) \<Longrightarrow> \<exists>dm'. setitem dm a b v = Inr dm'"
  using index_of_Some [of a "names dm"] index_of_Some [of b "names dm"]
  by (auto simp: setitem_def Let_def)

lemma combinations2_subset:
  "(x, y) \<in> set (combinations2 xs) \<Longrightarrow> x \<in> set xs \<and> y \<in> set xs"
  by (induction xs) auto

lemma fill_distances_identity_total:
  "wf_matrix dm \<Longrightarrow>
   (\<And>s1 s2. (s1, s2) \<in> set ps \<Longrightarrow> fst s1 \<in> set (names dm) \<and> fst s2 \<in> set (names dm)) \<Longrightarrow>
   \<exists>dm'. fill_distances lib None dm ps = Inr dm'"
proof (induction ps arbitrary: dm)
  case Nil
  then show ?case by simp
next
  case (Cons p ps)
  obtain seq1 seq2 where p: "p = (seq1, seq2)" by (cases p)
  have "fst seq1 \<in> set (names dm)" "fst seq2 \<in> set (names dm)"
    using Cons.prems(2) [of seq1 seq2] by (simp_all add: p)
  then obtain dm1 where
    step: "setitem dm (fst seq1) (fst seq2) (identity_pairwise (snd seq1) (snd seq2)) = Inr dm1"
    using setitem_total by blast
  from setitem_shape [OF step Cons.prems(1)]
  have s: "names dm1 = names dm" "wf_matrix dm1" by simp_all
  have "\<exists>dm'. fill_distances lib None dm1 ps = Inr dm'"
  proof (rule Cons.IH [OF s(2)])
    fix s1 s2 assume "(s1, s2) \<in> set ps"
    then show "fst s1 \<in> set (names dm1) \<and> fst s2 \<in> set (names dm1)"
      using Cons.prems(2) [of s1 s2] s(1) by simp
  qed
  then show ?case by (simp add: p pairwise_def step)
qed

lemma get_distance_identity:
  "(\<exists>dm. get_distance lib None msa = Inr dm) \<longleftrightarrow> distinct (map fst msa)"
proof
  assume "\<exists>dm. get_distance lib None msa = Inr dm"
  then show "distinct (map fst msa)"
    by (auto simp: get_distance_def new_matrix_def split: sum.splits if_splits)
next
  assume d: "distinct (map fst msa)"
  then obtain dm0 where new: "new_matrix (map fst msa) = Inr dm0"
    by (simp add: new_matrix_def)
  from new_matrix_shape [OF new] have dm0: "names dm0 = map fst msa" "wf_matrix dm0" by simp_all
  have "\<exists>dm. fill_distances lib None dm0 (combinations2 msa) = Inr dm"
  proof (rule fill_distances_identity_total [OF dm0(2)])
    fix s1 s2 assume "(s1, s2) \<in> set (combinations2 msa)"
    then have "s1 \<in> set msa \<and> s2 \<in> set msa" by (rule combinations2_subset)
    then show "fst s1 \<in> set (names dm0) \<and> fst s2 \<in> set (names dm0)" by (simp add: dm0(1))
  qed
  then show "\<exists>dm. get_distance lib None msa = Inr dm" by (simp add: get_distance_def new)
qed

lemma built_matrix_shape:
  assumes "calculate_distance_matrix lib msa model = Inr (Some dm)"
  shows "names dm = map fst msa \<and> wf_matrix dm"
proof -
  from calculate_distance_matrix_Some [OF assms] obtain scoring dm0 where
    new: "new_matrix (map fst msa) = Inr dm0"
    and fill: "fill_distances lib scoring dm0 (combinations2 msa) = Inr dm"
    by blast
  from new_matrix_shape [OF new]
  have dm0: "names dm0 = map fst msa" "wf_matrix dm0" "zero_diagonal dm0" by simp_all
  from fill_distances_shape [OF fill dm0(2,3)] dm0(1) show ?thesis by simp
qed

lemma process_alignment_file_raises:
  assumes "process_alignment_file lib path output_dir t plot showp = Inl e"
  shows "plot \<and> e = ValueError"
proof (cases "load_alignment lib path")
  case None
  then show ?thesis using assms by (simp add: process_alignment_file_def)
next
  case (Some a)
  have calc: "DistanceCalculator lib ''identity'' = Inr None" by (simp add: DistanceCalculator_def)
  show ?thesis
  proof (cases "get_distance lib None a")
    case (Inl e')
    then have "calculate_distance_matrix lib a ''identity'' = Inr None"
      by (simp add: calculate_distance_matrix_def calc)
    then show ?thesis using assms by (simp add: process_alignment_file_def Some)
  next
    case (Inr dm)
    then have c: "calculate_distance_matrix lib a ''identity'' = Inr (Some dm)"
      by (simp add: calculate_distance_matrix_def calc)
    from built_matrix_shape [OF c] have "wf_matrix dm" "length (map fst a) \<le> length (names dm)"
      by simp_all
    then obtain r where r: "analyze_distances dm (map fst a) t = Inr r"
      using analyze_fewer_ids by blast
    obtain outs avgs zs where "r = (outs, avgs, zs)" by (cases r)
    then show ?thesis using assms r
      by (auto simp: process_alignment_file_def Some c Let_def plot_distance_distribution_def
          split: if_splits sum.splits)
  qed
qed

subsection \<open>What the built matrix satisfies\<close>

text \<open>
  C8. Under the identity model \<open>calculate_distance_matrix\<close> returns a matrix for every
  alignment whose identifiers are distinct. A matrix that it returns, under any model,
  has one name per sequence; every entry can be read in both orders and the two reads
  agree; the diagonal is zero; and under the identity model every entry lies between 0
  and 1.
\<close>

theorem built_matrix_symmetric_zero_diagonal:
  "(distinct (map fst msa) \<longrightarrow>
      (\<exists>dm. calculate_distance_matrix lib msa ''identity'' = Inr (Some dm))) \<and>
   (calculate_distance_matrix lib msa model = Inr (Some dm) \<longrightarrow>
      length (names dm) = length msa \<and>
      (\<forall>i<length msa. \<forall>j<length msa. \<exists>d. getitem dm i j = Inr d \<and> getitem dm j i = Inr d) \<and>
      (\<forall>i<length msa. getitem dm i i = Inr 0) \<and>
      (model = ''identity'' \<longrightarrow>
         (\<forall>i<length msa. \<forall>j<length msa. \<exists>d. getitem dm i j = Inr d \<and> 0 \<le> d \<and> d \<le> 1)))"
proof (intro conjI impI)
  assume "distinct (map fst msa)"
  then obtain dm' where "get_distance lib None msa = Inr dm'"
    using get_distance_identity [of lib msa] by blast
  then have "calculate_distance_matrix lib msa ''identity'' = Inr (Some dm')"
    by (simp add: calculate_distance_matrix_def DistanceCalculator_def)
  then show "\<exists>dm. calculate_distance_matrix lib msa ''identity'' = Inr (Some dm)" ..
next
  assume built: "calculate_distance_matrix lib msa model = Inr (Some dm)"
  from calculate_distance_matrix_Some [OF built] obtain scoring dm0 where
    calc: "DistanceCalculator lib model = Inr scoring"
    and new: "new_matrix (map fst msa) = Inr dm0"
    and fill: "fill_distances lib scoring dm0 (combinations2 msa) = Inr dm"
    by blast
  from new_matrix_shape [OF new]
  have dm0: "names dm0 = map fst msa" "wf_matrix dm0" "zero_diagonal dm0" "unit_entries dm0"
    by simp_all
  from fill_distances_shape [OF fill dm0(2,3)] dm0(1)
  have dm: "names dm = map fst msa" "wf_matrix dm" "zero_diagonal dm" by simp_all
  have n: "length (names dm) = length msa" by (simp add: dm(1))
  have len: "length (matrix dm) = length msa" using dm(2) n by (simp add: wf_matrix_iff)
  have rows: "length (matrix dm ! i) = Suc i" if "i < length msa" for i
    using dm(2) n that by (simp add: wf_matrix_iff)
  have val: "getitem dm i j = Inr (matrix dm ! max i j ! min i j)"
    if "i < length msa" "j < length msa" for i j
    using getitem_value [OF dm(2)] that n by simp
  have sym: "\<exists>d. getitem dm i j = Inr d \<and> getitem dm j i = Inr d"
    if "i < length msa" "j < length msa" for i j
    using val [OF that] getitem_sym [of dm i j] by simp
  have diag: "getitem dm i i = Inr 0" if "i < length msa" for i
  proof -
    have "matrix dm ! i ! i = 0"
      using dm(3) that len by (simp add: zero_diagonal_def list_all_iff)
    then show ?thesis using val [OF that that] by simp
  qed
  have unit: "\<exists>d. getitem dm i j = Inr d \<and> 0 \<le> d \<and> d \<le> 1"
    if id: "model = ''identity''" and ij: "i < length msa" "j < length msa" for i j
  proof -
    have "scoring = None" using calc id by (simp add: DistanceCalculator_def)
    then have "unit_entries dm" using fill_distances_unit [of lib dm0 _ dm] fill dm0(4) by simp
    then have all: "\<And>row d. row \<in> set (matrix dm) \<Longrightarrow> d \<in> set row \<Longrightarrow> 0 \<le> d \<and> d \<le> 1"
      by (auto simp: unit_entries_def list_all_iff)
    have hi: "max i j < length msa" using ij by simp
    have "matrix dm ! max i j \<in> set (matrix dm)" using hi len by simp
    moreover have "matrix dm ! max i j ! min i j \<in> set (matrix dm ! max i j)"
      using rows [OF hi] by (intro nth_mem) simp
    ultimately show ?thesis using all val [OF ij] by blast
  qed
  show "length (names dm) = length msa" by (rule n)
  show "\<forall>i<length msa. \<forall>j<length msa. \<exists>d. getitem dm i j = Inr d \<and> getitem dm j i = Inr d"
    using sym by blast
  show "\<forall>i<length msa. getitem dm i i = Inr 0" using diag by blast
  show "\<forall>i<length msa. \<forall>j<length msa. \<exists>d. getitem dm i j = Inr d \<and> 0 \<le> d \<and> d \<le> 1"
    if "model = ''identity''"
    using unit [OF that] by blast
qed

text \<open>The theorem at the alignment of the four sequences A, B, C, D.\<close>

theorem built_matrix_symmetric_zero_diagonal_witness:
  "distinct (map fst scenario) \<and>
   calculate_distance_matrix identity_only scenario ''identity'' = Inr (Some scenario_matrix) \<and>
   (\<exists>dm. calculate_distance_matrix identity_only scenario ''identity'' = Inr (Some dm)) \<and>
   (\<exists>d. getitem scenario_matrix 0 3 = Inr d \<and> getitem scenario_matrix 3 0 = Inr d) \<and>
   getitem scenario_matrix 2 2 = Inr 0 \<and>
   (\<exists>d. getitem scenario_matrix 0 3 = Inr d \<and> 0 \<le> d \<and> d \<le> 1)"
proof -
  have d: "distinct (map fst scenario)" by (simp add: scenario_def)
  have h: "calculate_distance_matrix identity_only scenario ''identity'' = Inr (Some scenario_matrix)"
    by (rule scenario_built)
  have n: "length scenario = 4" by (simp add: scenario_def)
  note t = built_matrix_symmetric_zero_diagonal
    [of scenario identity_only "''identity''" scenario_matrix]
  from t d have e: "\<exists>dm. calculate_distance_matrix identity_only scenario ''identity'' = Inr (Some dm)"
    by blast
  from t h
  have r: "(\<forall>i<4. \<forall>j<4. \<exists>d. getitem scenario_matrix i j = Inr d \<and> getitem scenario_matrix j i = Inr d)"
    "(\<forall>i<4. getitem scenario_matrix i i = Inr 0)"
    "(\<forall>i<4. \<forall>j<4. \<exists>d. getitem scenario_matrix i j = Inr d \<and> 0 \<le> d \<and> d \<le> 1)"
    unfolding n by blast+
  have "\<exists>d. getitem scenario_matrix 0 3 = Inr d \<and> getitem scenario_matrix 3 0 = Inr d"
    using r(1) by simp
  moreover have "getitem scenario_matrix 2 2 = Inr 0" using r(2) by simp
  moreover have "\<exists>d. getitem scenario_matrix 0 3 = Inr d \<and> 0 \<le> d \<and> d \<le> 1"
    using r(3) by simp
  ultimately show ?thesis using d h e by blast
qed

subsection \<open>Errors that are caught\<close>

text \<open>
  C4, as the code has it. \<open>calculate_distance_matrix\<close> builds the calculator before
  its \<open>try\<close>: for a model that is neither \<open>identity\<close> nor known to the library the
  constructor's ValueError reaches the caller. For every other model nothing is raised:
  an exception of \<open>get_distance\<close> is caught and None is returned in place of the
  matrix; under \<open>identity\<close> that happens exactly when an identifier is repeated.
  \<open>load_alignment\<close> raises nothing either: it returns None exactly when the reader
  raises.
\<close>

theorem build_and_load_error_handling:
  "(model \<noteq> ''identity'' \<and> model \<notin> set (matrix_models lib) \<longrightarrow>
      calculate_distance_matrix lib a model = Inl ValueError) \<and>
   (model = ''identity'' \<or> model \<in> set (matrix_models lib) \<longrightarrow>
      (\<exists>scoring. DistanceCalculator lib model = Inr scoring \<and>
         calculate_distance_matrix lib a model =
           (case get_distance lib scoring a of Inl e \<Rightarrow> Inr None | Inr dm \<Rightarrow> Inr (Some dm)))) \<and>
   (calculate_distance_matrix lib a ''identity'' = Inr None \<longleftrightarrow> \<not> distinct (map fst a)) \<and>
   (load_alignment lib path = None \<longleftrightarrow> (\<exists>e. AlignIO_read lib path = Inl e))"
proof (intro conjI impI)
  assume "model \<noteq> ''identity'' \<and> model \<notin> set (matrix_models lib)"
  then show "calculate_distance_matrix lib a model = Inl ValueError"
    by (simp add: calculate_distance_matrix_def DistanceCalculator_def)
next
  assume "model = ''identity'' \<or> model \<in> set (matrix_models lib)"
  then have "\<exists>scoring. DistanceCalculator lib model = Inr scoring"
    by (cases "model = ''identity''") (simp_all add: DistanceCalculator_def)
  then obtain scoring where s: "DistanceCalculator lib model = Inr scoring" ..
  then have "calculate_distance_matrix lib a model =
           (case get_distance lib scoring a of Inl e \<Rightarrow> Inr None | Inr dm \<Rightarrow> Inr (Some dm))"
    by (simp add: calculate_distance_matrix_def)
  with s show "\<exists>scoring. DistanceCalculator lib model = Inr scoring \<and>
         calculate_distance_matrix lib a model =
           (case get_distance lib scoring a of Inl e \<Rightarrow> Inr None | Inr dm \<Rightarrow> Inr (Some dm))"
    by blast
next
  have calc: "DistanceCalculator lib ''identity'' = Inr None"
    by (simp add: DistanceCalculator_def)
  show "calculate_distance_matrix lib a ''identity'' = Inr None \<longleftrightarrow> \<not> distinct (map fst a)"
  proof (cases "get_distance lib None a")
    case (Inl e)
    then have "\<not> distinct (map fst a)" using get_distance_identity [of lib a] by simp
    then show ?thesis by (simp add: calculate_distance_matrix_def calc Inl)
  next
    case (Inr dm)
    then have "distinct (map fst a)" using get_distance_identity [of lib a] by simp
    then show ?thesis by (simp add: calculate_distance_matrix_def calc Inr)
  qed
next
  show "load_alignment lib path = None \<longleftrightarrow> (\<exists>e. AlignIO_read lib path = Inl e)"
    by (cases "AlignIO_read lib path") (simp_all add: load_alignment_def)
qed

theorem build_and_load_error_handling_witness:
  "''blosum999'' \<noteq> ''identity'' \<and> ''blosum999'' \<notin> set (matrix_models identity_only) \<and>
   calculate_distance_matrix identity_only scenario ''blosum999'' = Inl ValueError \<and>
   (calculate_distance_matrix identity_only scenario ''identity'' = Inr None) =
     (\<not> distinct (map fst scenario))"
proof -
  have p: "''blosum999'' \<noteq> ''identity'' \<and> ''blosum999'' \<notin> set (matrix_models identity_only)"
    by (simp add: identity_only_def)
  from build_and_load_error_handling [of "''blosum999''" identity_only scenario]
  have "''blosum999'' \<noteq> ''identity'' \<and> ''blosum999'' \<notin> set (matrix_models identity_only) \<longrightarrow>
      calculate_distance_matrix identity_only scenario ''blosum999'' = Inl ValueError"
    by (rule conjunct1)
  from this p have r: "calculate_distance_matrix identity_only scenario ''blosum999'' = Inl ValueError"
    by (rule mp)
  from build_and_load_error_handling [of "''identity''" identity_only scenario]
  have i: "(calculate_distance_matrix identity_only scenario ''identity'' = Inr None) =
     (\<not> distinct (map fst scenario))"
    by (rule conjunct2 [THEN conjunct2, THEN conjunct1])
  from p r i show ?thesis by blast
qed

text \<open>
  C4 as stated fails: an alignment with a repeated identifier, and a file that cannot be
  read, give None and not an error.
\<close>

theorem repeated_ids_give_none:
  "calculate_distance_matrix identity_only [(''A'', ''AC''), (''A'', ''AC'')] ''identity'' = Inr None \<and>
   load_alignment identity_only ''missing.fasta'' = None"
  by (simp add: calculate_distance_matrix_def DistanceCalculator_def get_distance_def
      new_matrix_def load_alignment_def identity_only_def)

subsection \<open>What the report says\<close>

text \<open>
  C9. When no result that is not None has an outlier, the report consists of the two
  header lines, then for every such result its four lines of description, the line
  saying that no outlier sequences were detected and the separator, and at the end the
  statement that no outlier sequences were detected in any alignments.
\<close>

theorem no_outliers_statement_is_written:
  assumes "\<forall>r. Some r \<in> set results \<longrightarrow> outliers r = []"
  shows "snd (write_report fmt4 results output_dir) =
           [''OUTLIER SEQUENCE ANALYSIS REPORT\<newline>'',
            ''===============================\<newline>\<newline>''] @
           concat (map (\<lambda>r.
             [''Alignment: '' @ alignment_name r @ ''\<newline>'',
              ''File: '' @ file_path r @ ''\<newline>'',
              ''Sequences: '' @ dec (num_sequences r) @ ''\<newline>'',
              ''Alignment Length: '' @ dec (alignment_length r) @ ''\<newline>'',
              ''\<newline>No outlier sequences detected.\<newline>'',
              ''\<newline>'' @ replicate 50 (CHR ''-'') @ ''\<newline>\<newline>''])
             [r. Some r \<leftarrow> results]) @
           [''No outlier sequences were detected in any alignments.\<newline>''] \<and>
         last (snd (write_report fmt4 results output_dir)) =
           ''No outlier sequences were detected in any alignments.\<newline>''"
proof -
  have none: "\<not> list_ex (\<lambda>r. outliers r \<noteq> []) [r. Some r \<leftarrow> results]"
    using assms by (auto simp: list_ex_iff split: option.splits)
  have sections: "map (\<lambda>r. fst (report_result fmt4 r False)) [r. Some r \<leftarrow> results] =
      map (\<lambda>r.
             [''Alignment: '' @ alignment_name r @ ''\<newline>'',
              ''File: '' @ file_path r @ ''\<newline>'',
              ''Sequences: '' @ dec (num_sequences r) @ ''\<newline>'',
              ''Alignment Length: '' @ dec (alignment_length r) @ ''\<newline>'',
              ''\<newline>No outlier sequences detected.\<newline>'',
              ''\<newline>'' @ replicate 50 (CHR ''-'') @ ''\<newline>\<newline>''])
          [r. Some r \<leftarrow> results]"
    using assms by (intro map_cong refl) (auto simp: report_result_def split: option.splits)
  have eq: "snd (write_report fmt4 results output_dir) =
           [''OUTLIER SEQUENCE ANALYSIS REPORT\<newline>'',
            ''===============================\<newline>\<newline>''] @
           concat (map (\<lambda>r.
             [''Alignment: '' @ alignment_name r @ ''\<newline>'',
              ''File: '' @ file_path r @ ''\<newline>'',
              ''Sequences: '' @ dec (num_sequences r) @ ''\<newline>'',
              ''Alignment Length: '' @ dec (alignment_length r) @ ''\<newline>'',
              ''\<newline>No outlier sequences detected.\<newline>'',
              ''\<newline>'' @ replicate 50 (CHR ''-'') @ ''\<newline>\<newline>''])
             [r. Some r \<leftarrow> results]) @
           [''No outlier sequences were detected in any alignments.\<newline>'']"
    unfolding write_report_eq sections using none by (simp only: if_False)
  have "last (snd (write_report fmt4 results output_dir)) =
           ''No outlier sequences were detected in any alignments.\<newline>''"
    unfolding eq by (simp only: append_assoc [symmetric] last_snoc)
  with eq show ?thesis by (rule conjI)
qed

theorem no_outliers_statement_is_written_witness:
  "outliers clean_result = [] \<and>
   last (snd (write_report (\<lambda>_. ''nan'') [Some clean_result, None] ''outlier_results'')) =
     ''No outlier sequences were detected in any alignments.\<newline>''"
proof -
  have o: "outliers clean_result = []" by (simp add: clean_result_def)
  then have h: "\<forall>r. Some r \<in> set [Some clean_result, None] \<longrightarrow> outliers r = []" by simp
  from no_outliers_statement_is_written [OF h, of "\<lambda>_. ''nan''" "''outlier_results''"]
  have "last (snd (write_report (\<lambda>_. ''nan'') [Some clean_result, None] ''outlier_results'')) =
     ''No outlier sequences were detected in any alignments.\<newline>''" by (rule conjunct2)
  with o show ?thesis by (rule conjI)
qed

text \<open>
  C10. The report written for a list of results is the report written for the results
  that are not None: the header, the sections of those results in order, and the closing
  statement when none of them has an outlier. \<open>process_alignment_file\<close> returns None
  when the alignment cannot be loaded and when the matrix cannot be computed.
\<close>

theorem failed_alignments_are_left_out:
  "snd (write_report fmt4 results output_dir) =
     snd (write_report fmt4 (filter (\<lambda>r. r \<noteq> None) results) output_dir) \<and>
   snd (write_report fmt4 results output_dir) =
     [''OUTLIER SEQUENCE ANALYSIS REPORT\<newline>'',
      ''===============================\<newline>\<newline>''] @
     concat (map (\<lambda>r. fst (report_result fmt4 r False)) [r. Some r \<leftarrow> results]) @
     (if list_ex (\<lambda>r. outliers r \<noteq> []) [r. Some r \<leftarrow> results] then []
      else [''No outlier sequences were detected in any alignments.\<newline>'']) \<and>
   (load_alignment lib path = None \<longrightarrow>
      process_alignment_file lib path output_dir t plot showp = Inr None) \<and>
   (\<forall>a. load_alignment lib path = Some a \<and>
        calculate_distance_matrix lib a ''identity'' = Inr None \<longrightarrow>
      process_alignment_file lib path output_dir t plot showp = Inr None)"
proof -
  have "snd (write_report fmt4 results output_dir) =
     snd (write_report fmt4 (filter (\<lambda>r. r \<noteq> None) results) output_dir)"
    unfolding write_report_eq successes_filter ..
  moreover have "load_alignment lib path = None \<longrightarrow>
      process_alignment_file lib path output_dir t plot showp = Inr None"
    by (simp add: process_alignment_file_def)
  moreover have "\<forall>a. load_alignment lib path = Some a \<and>
        calculate_distance_matrix lib a ''identity'' = Inr None \<longrightarrow>
      process_alignment_file lib path output_dir t plot showp = Inr None"
    by (simp add: process_alignment_file_def)
  ultimately show ?thesis using write_report_eq [of fmt4 results output_dir] by blast
qed

theorem failed_alignments_are_left_out_witness:
  "load_alignment identity_only ''missing.fasta'' = None \<and>
   process_alignment_file identity_only ''missing.fasta'' ''outlier_results'' (Fin 3) False False =
     Inr None \<and>
   load_alignment repeated_id_file ''twice.fasta'' = Some [(''A'', ''AC''), (''A'', ''AC'')] \<and>
   calculate_distance_matrix repeated_id_file [(''A'', ''AC''), (''A'', ''AC'')] ''identity'' = Inr None \<and>
   process_alignment_file repeated_id_file ''twice.fasta'' ''outlier_results'' (Fin 3) False False =
     Inr None \<and>
   snd (write_report (\<lambda>_. ''nan'') [None, Some clean_result, None] ''outlier_results'') =
     snd (write_report (\<lambda>_. ''nan'') [Some clean_result] ''outlier_results'')"
proof -
  have l1: "load_alignment identity_only ''missing.fasta'' = None"
    by (simp add: load_alignment_def identity_only_def)
  have l2: "load_alignment repeated_id_file ''twice.fasta'' = Some [(''A'', ''AC''), (''A'', ''AC'')]"
    by (simp add: load_alignment_def repeated_id_file_def)
  have c2: "calculate_distance_matrix repeated_id_file [(''A'', ''AC''), (''A'', ''AC'')] ''identity'' =
      Inr None"
    by (simp add: calculate_distance_matrix_def DistanceCalculator_def get_distance_def
        new_matrix_def)
  have f: "filter (\<lambda>r. r \<noteq> None) [None, Some clean_result, None] = [Some clean_result]" by simp
  show ?thesis
    using l1 l2 c2
      failed_alignments_are_left_out [of "\<lambda>_. ''nan''" "[None, Some clean_result, None]"
        "''outlier_results''" identity_only "''missing.fasta''" "Fin 3" False False]
      failed_alignments_are_left_out [of "\<lambda>_. ''nan''" "[None, Some clean_result, None]"
        "''outlier_results''" repeated_id_file "''twice.fasta''" "Fin 3" False False]
    unfolding f by blast
qed

end
